theory Spec2Isabelle
  imports Complex_Main
begin

section \<open>Error taxonomy (utils/errors.ts)\<close>

text \<open>
  The enum \<open>ErrorCode\<close>. Every concrete subclass of \<open>Last9Error\<close> fixes one code, so the
  code also identifies the class (and \<open>error.name\<close>, which is the constructor's name).
\<close>

datatype ErrorCode =
    CONFIG_ERROR | INVALID_INPUT | VALIDATION_ERROR
  | TOKEN_EXCHANGE_ERROR | TOKEN_EXPIRED | UNAUTHORIZED
  | NETWORK_ERROR | TIMEOUT_ERROR | CONNECTION_ERROR
  | API_ERROR | RATE_LIMIT_ERROR | SERVER_ERROR
  | PLUGIN_ERROR | PLUGIN_NOT_FOUND | PLUGIN_INIT_ERROR
  | CIRCUIT_BREAKER_OPEN
  | UNKNOWN_ERROR

text \<open>
  An instance of \<open>Last9Error\<close>. The fields \<open>context\<close>, \<open>timestamp\<close> and \<open>stack\<close> are
  left out: no operation modelled here reads them back. \<open>retryAfterMs\<close> is the extra field
  of \<open>RateLimitError\<close> (\<open>None\<close> is \<open>undefined\<close>); numbers that the code only ever builds
  from integers are \<open>int\<close>.
\<close>

record Last9Error =
  code :: ErrorCode
  message :: string
  retryable :: bool
  statusCode :: "int option"
  retryAfterMs :: "int option"

definition mkError :: "ErrorCode \<Rightarrow> bool \<Rightarrow> string \<Rightarrow> int option \<Rightarrow> Last9Error" where
  "mkError c r msg status =
     \<lparr>code = c, message = msg, retryable = r, statusCode = status, retryAfterMs = None\<rparr>"

definition ConfigError :: "string \<Rightarrow> Last9Error" where
  "ConfigError msg = mkError CONFIG_ERROR False msg None"

definition InvalidInputError :: "string \<Rightarrow> Last9Error" where
  "InvalidInputError msg = mkError INVALID_INPUT False msg None"

definition ValidationError :: "string \<Rightarrow> Last9Error" where
  "ValidationError msg = mkError VALIDATION_ERROR False msg None"

definition TokenExchangeError :: "string \<Rightarrow> int option \<Rightarrow> Last9Error" where
  "TokenExchangeError msg status = mkError TOKEN_EXCHANGE_ERROR False msg status"

definition TokenExpiredError :: "string \<Rightarrow> Last9Error" where
  "TokenExpiredError msg = mkError TOKEN_EXPIRED True msg (Some 401)"

definition UnauthorizedError :: "string \<Rightarrow> Last9Error" where
  "UnauthorizedError msg = mkError UNAUTHORIZED False msg (Some 401)"

definition NetworkError :: "string \<Rightarrow> Last9Error" where
  "NetworkError msg = mkError NETWORK_ERROR True msg None"

definition TimeoutError :: "string \<Rightarrow> Last9Error" where
  "TimeoutError msg = mkError TIMEOUT_ERROR True msg (Some 408)"

definition ConnectionError :: "string \<Rightarrow> Last9Error" where
  "ConnectionError msg = mkError CONNECTION_ERROR True msg None"

text \<open>\<open>ApiError\<close>: "5xx errors and 429 are retryable", computed in the constructor.\<close>

definition ApiError :: "string \<Rightarrow> int \<Rightarrow> Last9Error" where
  "ApiError msg status =
     mkError API_ERROR (status \<ge> 500 \<or> status = 429) msg (Some status)"

definition RateLimitError :: "string \<Rightarrow> int option \<Rightarrow> Last9Error" where
  "RateLimitError msg after =
     (mkError RATE_LIMIT_ERROR True msg (Some 429))\<lparr>retryAfterMs := after\<rparr>"

definition ServerError :: "string \<Rightarrow> int \<Rightarrow> Last9Error" where
  "ServerError msg status = mkError SERVER_ERROR True msg (Some status)"

definition CircuitBreakerOpenError :: "string \<Rightarrow> Last9Error" where
  "CircuitBreakerOpenError msg = mkError CIRCUIT_BREAKER_OPEN False msg None"

definition UnknownError :: "string \<Rightarrow> Last9Error" where
  "UnknownError msg = mkError UNKNOWN_ERROR False msg None"

text \<open>
  What a JavaScript \<open>throw\<close> (or a rejected promise) can carry: an \<open>Error\<close> object, which
  is a \<open>Last9Error\<close> or some other error with its \<open>name\<close> and \<open>message\<close>; or a value that
  is no \<open>Error\<close>. Of those, \<open>undefined\<close>/\<open>null\<close> are kept apart from the rest because reading
  a property of them throws a \<open>TypeError\<close>.
\<close>

datatype jserror = Last9 Last9Error | Native string string

datatype thrown = Err jserror | Undefined | Value string

fun isLast9Error :: "thrown \<Rightarrow> bool" where
  "isLast9Error (Err (Last9 e)) = True"
| "isLast9Error _ = False"

fun isRetryableError :: "thrown \<Rightarrow> bool" where
  "isRetryableError (Err (Last9 e)) = retryable e"
| "isRetryableError _ = False"

text \<open>\<open>this.constructor.name\<close> and \<open>error.message\<close> of an error object.\<close>

fun className :: "ErrorCode \<Rightarrow> string" where
  "className CONFIG_ERROR = ''ConfigError''"
| "className INVALID_INPUT = ''InvalidInputError''"
| "className VALIDATION_ERROR = ''ValidationError''"
| "className TOKEN_EXCHANGE_ERROR = ''TokenExchangeError''"
| "className TOKEN_EXPIRED = ''TokenExpiredError''"
| "className UNAUTHORIZED = ''UnauthorizedError''"
| "className NETWORK_ERROR = ''NetworkError''"
| "className TIMEOUT_ERROR = ''TimeoutError''"
| "className CONNECTION_ERROR = ''ConnectionError''"
| "className API_ERROR = ''ApiError''"
| "className RATE_LIMIT_ERROR = ''RateLimitError''"
| "className SERVER_ERROR = ''ServerError''"
| "className PLUGIN_ERROR = ''PluginError''"
| "className PLUGIN_NOT_FOUND = ''PluginNotFoundError''"
| "className PLUGIN_INIT_ERROR = ''PluginInitError''"
| "className CIRCUIT_BREAKER_OPEN = ''CircuitBreakerOpenError''"
| "className UNKNOWN_ERROR = ''UnknownError''"

fun errorName :: "jserror \<Rightarrow> string" where
  "errorName (Last9 e) = className (code e)"
| "errorName (Native n m) = n"

fun errorMessage :: "jserror \<Rightarrow> string" where
  "errorMessage (Last9 e) = message e"
| "errorMessage (Native n m) = m"

text \<open>
  \<open>wrapError(error)\<close> with no default message: a \<open>Last9Error\<close> is returned as it is,
  another \<open>Error\<close> becomes an \<open>UnknownError\<close> with its message (or the fixed text when the
  message is empty), anything else an \<open>UnknownError\<close> with the fixed text.
\<close>

fun wrapError :: "thrown \<Rightarrow> Last9Error" where
  "wrapError (Err (Last9 e)) = e"
| "wrapError (Err (Native n m)) =
     UnknownError (if m \<noteq> [] then m else ''Unknown error occurred'')"
| "wrapError _ = UnknownError ''Unknown error occurred''"

section \<open>Strings and numbers of the host language\<close>

text \<open>
  Strings are taken as ASCII. \<open>String.prototype.trim\<close> removes white space at both ends,
  \<open>toLowerCase\<close> maps the capital letters.
\<close>

definition isSpace :: "char \<Rightarrow> bool" where
  "isSpace c = (c \<in> set [CHR '' '', CHR 0x09, CHR 0x0A, CHR 0x0B, CHR 0x0C, CHR 0x0D])"

definition trim :: "string \<Rightarrow> string" where
  "trim s = rev (dropWhile isSpace (rev (dropWhile isSpace s)))"

definition toLowerChar :: "char \<Rightarrow> char" where
  "toLowerChar c =
     (case map_of (zip ''ABCDEFGHIJKLMNOPQRSTUVWXYZ'' ''abcdefghijklmnopqrstuvwxyz'') c of
        Some l \<Rightarrow> l | None \<Rightarrow> c)"

definition toLowerCase :: "string \<Rightarrow> string" where
  "toLowerCase s = map toLowerChar s"

definition digitValue :: "char \<Rightarrow> int option" where
  "digitValue c = map_of (zip ''0123456789'' [0, 1, 2, 3, 4, 5, 6, 7, 8, 9]) c"

definition isDigit :: "char \<Rightarrow> bool" where
  "isDigit c = (digitValue c \<noteq> None)"

definition digitsValue :: "string \<Rightarrow> int" where
  "digitsValue ds = foldl (\<lambda>acc c. acc * 10 + the (digitValue c)) 0 ds"

text \<open>
  \<open>parseInt(s, 10)\<close>: leading white space is skipped, one sign is read, then the longest
  run of decimal digits; whatever follows is ignored. With no digit the result is \<open>NaN\<close>,
  here \<open>None\<close>. (The value is exact here; the host rounds it to a double beyond 2^53.)
\<close>

definition parseInt :: "string \<Rightarrow> int option" where
  "parseInt s =
     (let t = dropWhile isSpace s;
          neg = (t \<noteq> [] \<and> hd t = CHR ''-'');
          u = (if t \<noteq> [] \<and> (hd t = CHR ''-'' \<or> hd t = CHR ''+'') then tl t else t);
          ds = takeWhile isDigit u
      in if ds = [] then None
         else Some (if neg then - digitsValue ds else digitsValue ds))"

text \<open>
  A number of the host is a double: a finite value, one of the two infinities, or \<open>NaN\<close>.
  Finite values are real numbers here and their arithmetic is exact (rounding to the
  nearest double is left out), but the range is the one of doubles: a result of magnitude
  2^1024 or more is infinite. \<open>NaN\<close> comes from \<open>0 * Infinity\<close> and \<open>Infinity - Infinity\<close> and
  is passed on by every operation.
\<close>

datatype number = Finite real | PlusInfinity | MinusInfinity | NaN

definition overflowAt :: real where
  "overflowAt = 2 ^ 1024"

definition fromReal :: "real \<Rightarrow> number" where
  "fromReal x =
     (if overflowAt \<le> x then PlusInfinity
      else if x \<le> - overflowAt then MinusInfinity
      else Finite x)"

text \<open>The operators \<open>*\<close> and \<open>+\<close>.\<close>

fun multiply :: "number \<Rightarrow> number \<Rightarrow> number" where
  "multiply NaN y = NaN"
| "multiply x NaN = NaN"
| "multiply (Finite a) (Finite b) = fromReal (a * b)"
| "multiply (Finite a) PlusInfinity =
     (if a = 0 then NaN else if 0 < a then PlusInfinity else MinusInfinity)"
| "multiply (Finite a) MinusInfinity =
     (if a = 0 then NaN else if 0 < a then MinusInfinity else PlusInfinity)"
| "multiply PlusInfinity (Finite b) =
     (if b = 0 then NaN else if 0 < b then PlusInfinity else MinusInfinity)"
| "multiply MinusInfinity (Finite b) =
     (if b = 0 then NaN else if 0 < b then MinusInfinity else PlusInfinity)"
| "multiply PlusInfinity PlusInfinity = PlusInfinity"
| "multiply PlusInfinity MinusInfinity = MinusInfinity"
| "multiply MinusInfinity PlusInfinity = MinusInfinity"
| "multiply MinusInfinity MinusInfinity = PlusInfinity"

fun add :: "number \<Rightarrow> number \<Rightarrow> number" where
  "add NaN y = NaN"
| "add x NaN = NaN"
| "add (Finite a) (Finite b) = fromReal (a + b)"
| "add PlusInfinity MinusInfinity = NaN"
| "add MinusInfinity PlusInfinity = NaN"
| "add PlusInfinity y = PlusInfinity"
| "add MinusInfinity y = MinusInfinity"
| "add (Finite a) PlusInfinity = PlusInfinity"
| "add (Finite a) MinusInfinity = MinusInfinity"

text \<open>
  \<open>Math.pow(2, n)\<close> for a natural number \<open>n\<close>: the powers of two up to 2^1023 are doubles,
  the next one is \<open>Infinity\<close>.
\<close>

definition Math_pow2 :: "nat \<Rightarrow> number" where
  "Math_pow2 n = (if n < 1024 then Finite (2 ^ n) else PlusInfinity)"

text \<open>\<open>Math.min\<close> of two numbers is \<open>NaN\<close> as soon as one of them is.\<close>

fun Math_min :: "number \<Rightarrow> number \<Rightarrow> number" where
  "Math_min NaN y = NaN"
| "Math_min x NaN = NaN"
| "Math_min MinusInfinity y = MinusInfinity"
| "Math_min x MinusInfinity = MinusInfinity"
| "Math_min PlusInfinity y = y"
| "Math_min x PlusInfinity = x"
| "Math_min (Finite a) (Finite b) = Finite (min a b)"

text \<open>The comparison \<open><=\<close>: false as soon as one side is \<open>NaN\<close>.\<close>

fun lessEq :: "number \<Rightarrow> number \<Rightarrow> bool" where
  "lessEq NaN y = False"
| "lessEq x NaN = False"
| "lessEq MinusInfinity y = True"
| "lessEq x PlusInfinity = True"
| "lessEq (Finite a) (Finite b) = (a \<le> b)"
| "lessEq PlusInfinity y = False"
| "lessEq x MinusInfinity = False"

text \<open>
  \<open>new Date(value)\<close> for a number: the time value is the number with its fraction dropped
  (rounded towards zero), in milliseconds since the epoch. The date is invalid, here
  \<open>None\<close>, when the number is not finite or is more than 8.64e15 ms away from the epoch;
  \<open>toISOString\<close> throws a \<open>RangeError\<close> on an invalid date.
\<close>

definition newDate :: "number \<Rightarrow> int option" where
  "newDate v =
     (case v of
        Finite x \<Rightarrow>
          if \<bar>x\<bar> \<le> 8640000000000000 then Some (if 0 \<le> x then \<lfloor>x\<rfloor> else \<lceil>x\<rceil>) else None
      | _ \<Rightarrow> None)"

section \<open>HTTP utilities (utils/http.ts)\<close>

definition TOO_MANY_REQUESTS :: int where "TOO_MANY_REQUESTS = 429"
definition TIMEOUT :: int where "TIMEOUT = 408"
definition GATEWAY_TIMEOUT :: int where "GATEWAY_TIMEOUT = 504"

definition isSuccessStatus :: "int \<Rightarrow> bool" where
  "isSuccessStatus s = (s \<ge> 200 \<and> s < 300)"

definition isClientError :: "int \<Rightarrow> bool" where
  "isClientError s = (s \<ge> 400 \<and> s < 500)"

definition isServerError :: "int \<Rightarrow> bool" where
  "isServerError s = (s \<ge> 500 \<and> s < 600)"

definition isRetryableStatus :: "int \<Rightarrow> bool" where
  "isRetryableStatus s = (isServerError s \<or> s = TOO_MANY_REQUESTS)"

text \<open>
  \<open>parseRetryAfter\<close>. Two things come from the host and are parameters: \<open>dateParse\<close> is
  \<open>new Date(s).getTime()\<close> in milliseconds (\<open>None\<close> is an invalid date), \<open>now\<close> is
  \<open>Date.now()\<close>. The header is \<open>None\<close> when it is \<open>undefined\<close>; the empty string is falsy
  as well.
\<close>

definition parseRetryAfter :: "(string \<Rightarrow> int option) \<Rightarrow> int \<Rightarrow> string option \<Rightarrow> int option" where
  "parseRetryAfter dateParse now retryAfter =
     (case retryAfter of
        None \<Rightarrow> None
      | Some s \<Rightarrow>
          if s = [] then None
          else (case parseInt s of
                  Some seconds \<Rightarrow> Some (seconds * 1000)
                | None \<Rightarrow>
                    (case dateParse s of
                       Some t \<Rightarrow> Some (max 0 (t - now))
                     | None \<Rightarrow> None)))"

text \<open>
  \<open>createHttpError(statusCode, message, context)\<close>. The context is an optional object
  with string values; only its key \<open>retry-after\<close> is read.
\<close>

definition createHttpError ::
  "(string \<Rightarrow> int option) \<Rightarrow> int \<Rightarrow> int \<Rightarrow> string \<Rightarrow> (string \<rightharpoonup> string) option \<Rightarrow> Last9Error" where
  "createHttpError dateParse now status msg context =
     (if status = TOO_MANY_REQUESTS then
        RateLimitError msg
          (parseRetryAfter dateParse now
             (case context of None \<Rightarrow> None | Some c \<Rightarrow> c ''retry-after''))
      else if status = TIMEOUT \<or> status = GATEWAY_TIMEOUT then TimeoutError msg
      else if isServerError status then ServerError msg status
      else if isClientError status then ApiError msg status
      else ApiError msg status)"

section \<open>Time utilities (utils/time.ts)\<close>

text \<open>
  \<open>isExpired(timestamp, bufferSeconds)\<close> for a numeric timestamp in seconds; \<open>now\<close> is
  \<open>Date.now()\<close> in milliseconds.
\<close>

definition isExpired :: "int \<Rightarrow> int \<Rightarrow> int \<Rightarrow> bool" where
  "isExpired now timestamp bufferSeconds =
     (let expiryTime = timestamp * 1000;
          buffer = bufferSeconds * 1000
      in expiryTime - buffer \<le> now)"

text \<open>
  \<open>calculateBackoff\<close>. The attempt number is a natural number, as in every call the program
  makes. The result of \<open>Math.random()\<close>, a finite number in [0, 1), is the first argument
  \<open>rnd\<close>. From attempt number 1024 on \<open>Math.pow(2, attemptNumber)\<close> is \<open>Infinity\<close>, and then
  \<open>exponential\<close> or \<open>jitter\<close> is \<open>NaN\<close> when the base or the draw is 0.
\<close>

definition exponential :: "nat \<Rightarrow> number \<Rightarrow> number" where
  "exponential attemptNumber baseMs = multiply (Math_pow2 attemptNumber) baseMs"

definition jitter :: "real \<Rightarrow> nat \<Rightarrow> number \<Rightarrow> number" where
  "jitter rnd attemptNumber baseMs =
     multiply (multiply (Finite rnd) (Finite 0.3)) (exponential attemptNumber baseMs)"

definition calculateBackoff :: "real \<Rightarrow> nat \<Rightarrow> number \<Rightarrow> number \<Rightarrow> number" where
  "calculateBackoff rnd attemptNumber baseMs maxMs =
     Math_min (add (exponential attemptNumber baseMs) (jitter rnd attemptNumber baseMs)) maxMs"

section \<open>The world outside the program\<close>

text \<open>
  \<open>TokenResponse\<close>, \<open>CachedToken\<close>, \<open>ChangeEvent\<close> and \<open>ChangeEventResponse\<close> of
  core/types. \<open>expires_at\<close> and \<open>issued_at\<close> are numbers, seconds since the epoch; a valid
  \<open>Date\<close> is its \<open>getTime()\<close>, whole milliseconds since the epoch (an invalid one is never
  stored for long, see \<open>exchangeAndCache\<close>). An optional field is an
  \<open>option\<close>. An attribute value is a string, a number or a boolean, or \<open>undefined\<close> when
  the value assigned was a property that the object read did not have.
\<close>

record TokenResponse =
  access_token :: string
  refresh_token :: string
  expires_at :: number
  issued_at :: number
  scopes :: "string list"

record CachedToken =
  accessToken :: string
  refreshToken :: string
  expiresAt :: int
  cachedAt :: int

datatype EventState = Start | Stop

datatype AttributeValue = AString string | ANumber real | ABoolean bool | AUndefined

type_synonym Attributes = "string \<rightharpoonup> AttributeValue"

record ChangeEvent =
  event_name :: string
  event_state :: EventState
  timestamp :: "string option"
  data_source_name :: "string option"
  attributes :: Attributes

record ChangeEventResponse =
  success :: bool
  event_id :: "string option"
  response_timestamp :: "string option"

text \<open>How an asynchronous call of a collaborator ends.\<close>

datatype 'a outcome = Resolves 'a | Rejects thrown

text \<open>
  The state a run reads and writes. \<open>clock\<close> is \<open>Date.now()\<close>. \<open>random\<close> gives the result
  of the k-th call of \<open>Math.random()\<close> and \<open>drawn\<close> counts the calls made. \<open>slept\<close> lists
  the arguments of \<open>sleep\<close>, oldest first. The API client is taken at its interface
  (\<open>ApiClient\<close> in core/types/provider.ts): \<open>refreshes\<close> and \<open>sendings\<close> say how its k-th
  call of \<open>refreshAccessToken\<close> and of \<open>sendChangeEvent\<close> ends, \<open>refreshed\<close> and \<open>sent\<close>
  list the arguments of the calls made. \<open>cache\<close> is the map of the \<open>TokenManager\<close>;
  \<open>outputs\<close> lists the calls of \<open>setOutput\<close>, \<open>failure\<close> is the message of
  \<open>core.setFailed\<close>. Log lines are not modelled.
\<close>

record world =
  clock :: int
  random :: "nat \<Rightarrow> real"
  drawn :: nat
  slept :: "number list"
  refreshes :: "nat \<Rightarrow> TokenResponse outcome"
  refreshed :: "string list"
  sendings :: "nat \<Rightarrow> ChangeEventResponse outcome"
  sent :: "(string \<times> ChangeEvent \<times> string) list"
  cache :: "string \<rightharpoonup> CachedToken"
  outputs :: "(string \<times> string) list"
  failure :: "string option"

definition Math_random :: "world \<Rightarrow> real \<times> world" where
  "Math_random w = (random w (drawn w), w\<lparr>drawn := Suc (drawn w)\<rparr>)"

text \<open>
  \<open>sleep(ms)\<close> resolves when a timer of \<open>ms\<close> milliseconds fires (\<open>setTimeout\<close>). The timers
  of the host take a delay between 1 and 2^31 - 1 and drop its fraction; any other delay,
  \<open>NaN\<close> included, is set to 1. The clock has then advanced by that many milliseconds at
  least, and the model takes the first millisecond at which the timer can fire.
\<close>

definition timerDelay :: "number \<Rightarrow> int" where
  "timerDelay ms =
     (case ms of
        Finite d \<Rightarrow> if 1 \<le> d \<and> d \<le> 2147483647 then \<lfloor>d\<rfloor> else 1
      | _ \<Rightarrow> 1)"

definition sleep :: "number \<Rightarrow> world \<Rightarrow> world" where
  "sleep ms w = w\<lparr>slept := slept w @ [ms], clock := clock w + timerDelay ms\<rparr>"

definition refreshAccessToken :: "string \<Rightarrow> world \<Rightarrow> TokenResponse outcome \<times> world" where
  "refreshAccessToken refreshTok w =
     (refreshes w (length (refreshed w)), w\<lparr>refreshed := refreshed w @ [refreshTok]\<rparr>)"

definition sendChangeEvent ::
  "string \<Rightarrow> ChangeEvent \<Rightarrow> string \<Rightarrow> world \<Rightarrow> ChangeEventResponse outcome \<times> world" where
  "sendChangeEvent orgSlug event accessTok w =
     (sendings w (length (sent w)), w\<lparr>sent := sent w @ [(orgSlug, event, accessTok)]\<rparr>)"

section \<open>Retry wrapper (retry.ts)\<close>

record RetryConfig =
  maxAttempts :: int
  backoffMs :: number
  maxBackoffMs :: number

text \<open>
  What \<open>withRetry\<close> did, in order: an invocation of the operation at an attempt number
  that threw the given value, one that returned, and a sleep after an attempt number with
  its delay. The list is returned beside the result; the operation cannot touch it.
\<close>

datatype event = Failed nat thrown | Succeeded nat | Slept nat number

type_synonym 'a retried = "(thrown + 'a) \<times> event list \<times> world"

definition prepend :: "event list \<Rightarrow> 'a retried \<Rightarrow> 'a retried" where
  "prepend es r = (case r of (res, tr, w) \<Rightarrow> (res, es @ tr, w))"

text \<open>
  The non-retryable branch evaluates \<open>lastError.message\<close> for its log line before it
  rethrows: on \<open>undefined\<close> or \<open>null\<close> that evaluation throws a \<open>TypeError\<close> instead.
\<close>

definition rethrown :: "thrown \<Rightarrow> thrown" where
  "rethrown error =
     (if error = Undefined
      then Err (Native ''TypeError'' ''Cannot read properties of undefined (reading 'message')'')
      else error)"

text \<open>
  The \<open>for\<close> loop of \<open>withRetry\<close> from attempt number \<open>attempt\<close> on, with the current
  value of \<open>lastError\<close>; the last line is the code after the loop, which \<open>break\<close> also
  reaches with \<open>lastError = error\<close>.
\<close>

function withRetry_loop ::
  "(world \<Rightarrow> (thrown + 'a) \<times> world) \<Rightarrow> RetryConfig \<Rightarrow> nat \<Rightarrow> thrown \<Rightarrow> world \<Rightarrow> 'a retried" where
  "withRetry_loop operation config attempt lastError w =
     (if int attempt < maxAttempts config then
        (case operation w of
           (Inr result, w1) \<Rightarrow> (Inr result, [Succeeded attempt], w1)
         | (Inl error, w1) \<Rightarrow>
             if int attempt = maxAttempts config - 1 then (Inl error, [Failed attempt error], w1)
             else if \<not> isRetryableError error then
               (Inl (rethrown error), [Failed attempt error], w1)
             else
               (case Math_random w1 of
                  (rnd, w2) \<Rightarrow>
                    let backoffTime =
                          calculateBackoff rnd attempt (backoffMs config) (maxBackoffMs config)
                    in prepend [Failed attempt error, Slept attempt backoffTime]
                         (withRetry_loop operation config (Suc attempt) error
                            (sleep backoffTime w2))))
      else (Inl lastError, [], w))"
  by pat_completeness auto
termination
  by (relation "measure (\<lambda>(operation, config, attempt, lastError, w).
                   nat (maxAttempts config - int attempt))") auto

definition withRetry :: "(world \<Rightarrow> (thrown + 'a) \<times> world) \<Rightarrow> RetryConfig \<Rightarrow> world \<Rightarrow> 'a retried" where
  "withRetry operation config w = withRetry_loop operation config 0 Undefined w"

text \<open>Readings of the list of events.\<close>

fun attempts :: "event list \<Rightarrow> nat list" where
  "attempts [] = []"
| "attempts (Failed a e # es) = a # attempts es"
| "attempts (Succeeded a # es) = a # attempts es"
| "attempts (Slept a d # es) = attempts es"


fun sleeps :: "event list \<Rightarrow> (nat \<times> number) list" where
  "sleeps [] = []"
| "sleeps (Failed a e # es) = sleeps es"
| "sleeps (Succeeded a # es) = sleeps es"
| "sleeps (Slept a d # es) = (a, d) # sleeps es"

declare withRetry_loop.simps [simp del]

section \<open>Token manager (providers/api/token-manager.ts)\<close>

text \<open>
  The manager holds the buffer in seconds; its cache is the field \<open>cache\<close> of the world.
  The constructor reads \<open>config?.expiryBufferSeconds || 300\<close>: a missing value and 0 both
  give 300.
\<close>

record TokenManager =
  expiryBufferSeconds :: int

definition newTokenManager :: "int option \<Rightarrow> TokenManager" where
  "newTokenManager expiryBuffer =
     \<lparr>expiryBufferSeconds =
        (case expiryBuffer of None \<Rightarrow> 300 | Some b \<Rightarrow> if b \<noteq> 0 then b else 300)\<rparr>"

text \<open>
  \<open>getCacheKey\<close>: the first 16 characters of the hexadecimal SHA-256 digest. The digest
  is the host's (\<open>crypto\<close>) and is a parameter, \<open>sha256hex\<close>.
\<close>

definition getCacheKey :: "(string \<Rightarrow> string) \<Rightarrow> string \<Rightarrow> string" where
  "getCacheKey sha256hex refreshTok = take 16 (sha256hex refreshTok)"

definition isTokenExpired :: "TokenManager \<Rightarrow> int \<Rightarrow> int \<Rightarrow> bool" where
  "isTokenExpired tm now expiresAtSeconds = isExpired now expiresAtSeconds (expiryBufferSeconds tm)"

text \<open>
  The condition of the first \<open>if\<close> of \<open>getAccessToken\<close>:
  \<open>cached && !this.isTokenExpired(Math.floor(cached.expiresAt.getTime() / 1000))\<close>.
\<close>

definition cachedAndValid :: "TokenManager \<Rightarrow> int \<Rightarrow> CachedToken option \<Rightarrow> bool" where
  "cachedAndValid tm now cached =
     (case cached of
        None \<Rightarrow> False
      | Some c \<Rightarrow> \<not> isTokenExpired tm now (expiresAt c div 1000))"

text \<open>
  The \<open>try\<close> block of \<open>getAccessToken\<close> with its \<open>catch\<close>. After the exchange has
  resolved, the block stores the record and then logs \<open>cachedToken.expiresAt.toISOString()\<close>:
  on an invalid date that call throws a \<open>RangeError\<close> with the message
  \<open>Invalid time value\<close>, inside the \<open>try\<close>, so the \<open>catch\<close> removes the entry just stored and
  throws a \<open>TokenExchangeError\<close>.
\<close>

definition exchangeAndCache :: "string \<Rightarrow> string \<Rightarrow> world \<Rightarrow> (thrown + string) \<times> world" where
  "exchangeAndCache cacheKey refreshTok w =
     (case refreshAccessToken refreshTok w of
        (Resolves tokenResponse, w1) \<Rightarrow>
          (case newDate (multiply (expires_at tokenResponse) (Finite 1000)) of
             Some expiry \<Rightarrow>
               let cachedToken =
                     \<lparr>accessToken = access_token tokenResponse,
                      refreshToken = refresh_token tokenResponse,
                      expiresAt = expiry,
                      cachedAt = clock w1\<rparr>
               in (Inr (access_token tokenResponse),
                   w1\<lparr>cache := (cache w1)(cacheKey \<mapsto> cachedToken)\<rparr>)
           | None \<Rightarrow>
               (Inl (Err (Last9 (TokenExchangeError
                  ''Failed to exchange refresh token: Invalid time value'' None))),
                w1\<lparr>cache := (cache w1)(cacheKey := None)\<rparr>))
      | (Rejects error, w1) \<Rightarrow>
          let w2 = w1\<lparr>cache := (cache w1)(cacheKey := None)\<rparr>
          in (case error of
                Err e \<Rightarrow>
                  (Inl (Err (Last9 (TokenExchangeError
                     (''Failed to exchange refresh token: '' @ errorMessage e) None))), w2)
              | _ \<Rightarrow>
                  (Inl (Err (Last9 (TokenExchangeError
                     ''Failed to exchange refresh token'' None))), w2)))"

definition getAccessToken ::
  "(string \<Rightarrow> string) \<Rightarrow> TokenManager \<Rightarrow> string \<Rightarrow> world \<Rightarrow> (thrown + string) \<times> world" where
  "getAccessToken sha256hex tm refreshTok w =
     (let cacheKey = getCacheKey sha256hex refreshTok;
          cached = cache w cacheKey
      in if cachedAndValid tm (clock w) cached
         then (case cached of
                 Some c \<Rightarrow> (Inr (accessToken c), w)
               | None \<Rightarrow> exchangeAndCache cacheKey refreshTok w)
         else exchangeAndCache cacheKey refreshTok w)"

definition clearCache :: "world \<Rightarrow> world" where
  "clearCache w = w\<lparr>cache := Map.empty\<rparr>"

section \<open>Configuration (config.ts)\<close>

text \<open>
  The context provider (providers/context/github-context.ts). \<open>inputs\<close> is what
  \<open>core.getInput\<close> finds for a name; a name with no value reads as the empty string.
  \<open>github\<close> is the metadata the getters of the provider return, with numbers as their
  decimal text, or \<open>None\<close> when a getter throws (a missing \<open>GITHUB_REPOSITORY\<close>, say):
  the getters are all called before the first attribute is assigned.
\<close>

record GitHubInfo =
  fullName :: string
  workflowName :: string
  runId :: string
  runNumber :: string
  runAttempt :: string
  sha :: string
  ref :: string
  commitMessage :: string
  username :: string
  githubEvent :: string

record ContextProvider =
  inputs :: "string \<rightharpoonup> string"
  github :: "GitHubInfo option"

definition apostrophe :: string where
  "apostrophe = [CHR 0x27]"

text \<open>
  \<open>context.getInput(name, required)\<close>: \<open>core.getInput\<close> throws on a required input that
  is empty, and the provider rethrows that as an \<open>InvalidInputError\<close>. (The message is
  the one for an input that was not supplied; only the kind of the error matters below.)
\<close>

definition getInput :: "ContextProvider \<Rightarrow> string \<Rightarrow> bool \<Rightarrow> Last9Error + string" where
  "getInput context name required =
     (let v = (case inputs context name of None \<Rightarrow> [] | Some x \<Rightarrow> x)
      in if required \<and> v = []
         then Inl (InvalidInputError
                (''Failed to get input '' @ apostrophe @ name @ apostrophe
                 @ '': Input required and not supplied: '' @ name))
         else Inr v)"

text \<open>JavaScript's \<open>a || b\<close> on strings: the empty string is falsy.\<close>

definition orDefault :: "string \<Rightarrow> string \<Rightarrow> string" where
  "orDefault a b = (if a \<noteq> [] then a else b)"

text \<open>
  \<open>ActionConfig\<close>. \<open>eventState\<close> is one of the strings start, stop, both. The three retry
  numbers are results of \<open>parseInt\<close>, so \<open>None\<close> is \<open>NaN\<close>. The interface has no field for
  the environment label or the service name. (The refresh token's field is suffixed: the
  cached token has one of that name.)
\<close>

record ActionConfig =
  apiBaseUrl :: string
  orgSlug :: string
  refreshToken_cfg :: string
  dataSourceName :: "string option"
  eventName :: string
  eventState :: string
  includeGitHubAttributes :: bool
  customAttributes :: "(string \<times> AttributeValue) list"
  maxRetryAttempts :: "int option"
  retryBackoffMs :: "int option"
  maxRetryBackoffMs :: "int option"

definition parseEventState :: "string \<Rightarrow> Last9Error + string" where
  "parseEventState v =
     (let normalized = trim (toLowerCase v)
      in if normalized = ''start'' \<or> normalized = ''stop'' \<or> normalized = ''both''
         then Inr normalized
         else Inl (InvalidInputError
                (''Invalid event_state: '' @ v @ ''. Must be 'start', 'stop', or 'both''
                 @ apostrophe)))"

definition parseBoolean :: "string \<Rightarrow> bool" where
  "parseBoolean v =
     (let normalized = trim (toLowerCase v)
      in normalized = ''true'' \<or> normalized = ''1'' \<or> normalized = ''yes'')"

text \<open>
  A parsed JSON text. \<open>JSON.parse\<close> is the host's and is a parameter: it gives the value,
  or the message of the \<open>SyntaxError\<close> it throws.
\<close>

datatype json =
    JNull | JBool bool | JNumber real | JString string
  | JArray "json list" | JObject "(string \<times> json) list"

fun scalar :: "json \<Rightarrow> AttributeValue option" where
  "scalar (JString x) = Some (AString x)"
| "scalar (JNumber x) = Some (ANumber x)"
| "scalar (JBool x) = Some (ABoolean x)"
| "scalar _ = None"

text \<open>
  The validation loop of \<open>parseCustomAttributes\<close> over \<open>Object.entries(parsed)\<close>: it throws
  at the first value that is no string, number or boolean.
\<close>

fun validateEntries :: "(string \<times> json) list \<Rightarrow> Last9Error + (string \<times> AttributeValue) list" where
  "validateEntries [] = Inr []"
| "validateEntries ((key, val) # rest) =
     (case scalar val of
        None \<Rightarrow> Inl (ConfigError
          (''Invalid attribute value for '' @ apostrophe @ key @ apostrophe
           @ '': must be string, number, or boolean''))
      | Some a \<Rightarrow>
          (case validateEntries rest of
             Inl e \<Rightarrow> Inl e
           | Inr as \<Rightarrow> Inr ((key, a) # as)))"

definition parseCustomAttributes ::
  "(string \<Rightarrow> string + json) \<Rightarrow> string \<Rightarrow> Last9Error + (string \<times> AttributeValue) list" where
  "parseCustomAttributes JSON_parse v =
     (if v = [] \<or> trim v = [] then Inr []
      else (case JSON_parse v of
              Inl syntaxError \<Rightarrow>
                Inl (ConfigError (''Failed to parse custom_attributes as JSON: '' @ syntaxError))
            | Inr (JObject entries) \<Rightarrow> validateEntries entries
            | Inr _ \<Rightarrow> Inl (ConfigError ''custom_attributes must be a JSON object'')))"

text \<open>
  \<open>loadConfig\<close>, statement by statement; \<open>Inl\<close> is the error thrown. An optional input
  is read with \<open>required = false\<close>, which cannot throw.
\<close>

definition optionalInput :: "ContextProvider \<Rightarrow> string \<Rightarrow> string" where
  "optionalInput context name = (case getInput context name False of Inr v \<Rightarrow> v | Inl e \<Rightarrow> [])"

definition loadConfig :: "(string \<Rightarrow> string + json) \<Rightarrow> ContextProvider \<Rightarrow> Last9Error + ActionConfig" where
  "loadConfig JSON_parse context =
     (case getInput context ''refresh_token'' True of
        Inl e \<Rightarrow> Inl e
      | Inr refreshTok \<Rightarrow>
     (case getInput context ''org_slug'' True of
        Inl e \<Rightarrow> Inl e
      | Inr slug \<Rightarrow>
     (let baseUrl = orDefault (optionalInput context ''api_base_url'') ''https://app.last9.io'';
          name = orDefault (optionalInput context ''event_name'') ''deployment''
      in
     (case parseEventState (orDefault (optionalInput context ''event_state'') ''stop'') of
        Inl e \<Rightarrow> Inl e
      | Inr state \<Rightarrow>
     (let dataSource = (if optionalInput context ''data_source_name'' \<noteq> []
                        then Some (optionalInput context ''data_source_name'') else None);
          includeGitHub =
            parseBoolean (orDefault (optionalInput context ''include_github_attributes'') ''true'')
      in
     (case parseCustomAttributes JSON_parse (optionalInput context ''custom_attributes'') of
        Inl e \<Rightarrow> Inl e
      | Inr custom \<Rightarrow>
          Inr \<lparr>apiBaseUrl = baseUrl,
               orgSlug = slug,
               refreshToken_cfg = refreshTok,
               dataSourceName = dataSource,
               eventName = name,
               eventState = state,
               includeGitHubAttributes = includeGitHub,
               customAttributes = custom,
               maxRetryAttempts =
                 parseInt (orDefault (optionalInput context ''max_retry_attempts'') ''3''),
               retryBackoffMs =
                 parseInt (orDefault (optionalInput context ''retry_backoff_ms'') ''1000''),
               maxRetryBackoffMs =
                 parseInt (orDefault (optionalInput context ''max_retry_backoff_ms'') ''30000'')\<rparr>))))))"

section \<open>Attributes and events (attribute-collector.ts, event-builder.ts)\<close>

text \<open>
  \<open>collectAttributes(context, config)\<close> with the four fields of its \<open>AttributeConfig\<close> as
  arguments; \<open>serviceName\<close> and \<open>env\<close> are \<open>None\<close> when the caller passes \<open>undefined\<close>.
\<close>

definition fromOptional :: "string option \<Rightarrow> AttributeValue" where
  "fromOptional v = (case v of None \<Rightarrow> AUndefined | Some x \<Rightarrow> AString x)"

definition collectAttributes ::
  "ContextProvider \<Rightarrow> bool \<Rightarrow> (string \<times> AttributeValue) list \<Rightarrow> string option \<Rightarrow> string option
     \<Rightarrow> Attributes" where
  "collectAttributes context includeGitHub custom serviceName env =
     (let a0 = [''service_name'' \<mapsto> fromOptional serviceName, ''env'' \<mapsto> fromOptional env];
          a1 = (if includeGitHub
                then (case github context of
                        None \<Rightarrow> a0
                      | Some g \<Rightarrow>
                          a0(''repository'' \<mapsto> AString (fullName g),
                             ''workflow'' \<mapsto> AString (workflowName g),
                             ''run_id'' \<mapsto> AString (runId g),
                             ''run_number'' \<mapsto> AString (runNumber g),
                             ''run_attempt'' \<mapsto> AString (runAttempt g),
                             ''commit_sha'' \<mapsto> AString (sha g),
                             ''ref'' \<mapsto> AString (ref g),
                             ''commit_message'' \<mapsto> AString (commitMessage g),
                             ''actor'' \<mapsto> AString (username g),
                             ''event_name'' \<mapsto> AString (githubEvent g)))
                else a0)
      in foldl (\<lambda>a (key, v). a(key \<mapsto> v)) a1 custom)"

text \<open>
  \<open>createDeploymentEvent\<close>; the timestamp is \<open>new Date().toISOString()\<close>, with the
  host's \<open>toISOString\<close> a parameter.
\<close>

definition createDeploymentEvent ::
  "(int \<Rightarrow> string) \<Rightarrow> int \<Rightarrow> EventState \<Rightarrow> Attributes \<Rightarrow> string \<Rightarrow> string option \<Rightarrow> ChangeEvent" where
  "createDeploymentEvent toISOString now state attrs name dataSource =
     \<lparr>event_name = name,
      event_state = state,
      timestamp = Some (toISOString now),
      data_source_name = dataSource,
      attributes = attrs\<rparr>"

section \<open>The action (index.ts)\<close>

text \<open>
  The three functions of the host a run needs: the hexadecimal SHA-256 digest,
  \<open>Date.prototype.toISOString\<close> and \<open>JSON.parse\<close>.
\<close>

record host =
  digest :: "string \<Rightarrow> string"
  isoTime :: "int \<Rightarrow> string"
  jsonParse :: "string \<Rightarrow> string + json"

text \<open>\<open>await\<close> of a call of the API client: a rejection is thrown.\<close>

definition await :: "'a outcome \<times> world \<Rightarrow> (thrown + 'a) \<times> world" where
  "await r = (case r of (Resolves v, w) \<Rightarrow> (Inr v, w) | (Rejects e, w) \<Rightarrow> (Inl e, w))"

text \<open>
  The retry settings every \<open>withRetry\<close> of \<open>run\<close> gets. A \<open>NaN\<close> \<open>maxAttempts\<close> is passed on
  as 0: every comparison with \<open>NaN\<close> is false, so it ends the loop before its first
  iteration as 0 does. The two delays are passed on as they are.
\<close>

definition toNumber :: "int option \<Rightarrow> number" where
  "toNumber v = (case v of None \<Rightarrow> NaN | Some n \<Rightarrow> fromReal (real_of_int n))"

definition retryConfig :: "ActionConfig \<Rightarrow> RetryConfig" where
  "retryConfig config =
     \<lparr>maxAttempts = (case maxRetryAttempts config of None \<Rightarrow> 0 | Some n \<Rightarrow> n),
      backoffMs = toNumber (retryBackoffMs config),
      maxBackoffMs = toNumber (maxRetryBackoffMs config)\<rparr>"

text \<open>\<open>response.timestamp || event.timestamp\<close>, and the test \<open>if (timestamp)\<close>.\<close>

definition truthy :: "string option \<Rightarrow> bool" where
  "truthy v = (case v of None \<Rightarrow> False | Some x \<Rightarrow> x \<noteq> [])"

definition orElse :: "string option \<Rightarrow> string option \<Rightarrow> string option" where
  "orElse a b = (if truthy a then a else b)"

definition setOutput :: "string \<Rightarrow> string \<Rightarrow> world \<Rightarrow> world" where
  "setOutput name v w = w\<lparr>outputs := outputs w @ [(name, v)]\<rparr>"

text \<open>
  One phase of \<open>run\<close>: build the event, send it under \<open>withRetry\<close>, keep the timestamp.
\<close>

definition sendPhase ::
  "host \<Rightarrow> ActionConfig \<Rightarrow> Attributes \<Rightarrow> string \<Rightarrow> EventState \<Rightarrow> world
     \<Rightarrow> (thrown + string option) \<times> world" where
  "sendPhase h config attrs accessTok state w =
     (let event = createDeploymentEvent (isoTime h) (clock w) state attrs
                    (eventName config) (dataSourceName config)
      in (case withRetry (\<lambda>w. await (sendChangeEvent (orgSlug config) event accessTok w))
                 (retryConfig config) w of
            (Inl error, tr, w1) \<Rightarrow> (Inl error, w1)
          | (Inr response, tr, w1) \<Rightarrow>
              (Inr (orElse (response_timestamp response) (timestamp event)), w1)))"

text \<open>
  The \<open>try\<close> block of \<open>run\<close>. \<open>config.serviceName\<close> and \<open>config.env\<close> are read from an
  \<open>ActionConfig\<close>, which has neither: both are \<open>undefined\<close>.
\<close>

definition run_try :: "host \<Rightarrow> ContextProvider \<Rightarrow> world \<Rightarrow> (thrown + unit) \<times> world" where
  "run_try h context w =
     (case loadConfig (jsonParse h) context of
        Inl e \<Rightarrow> (Inl (Err (Last9 e)), w)
      | Inr config \<Rightarrow>
     (let tokenManager = newTokenManager (Some 300);
          attrs = collectAttributes context (includeGitHubAttributes config)
                    (customAttributes config) None None
      in
     (case withRetry (getAccessToken (digest h) tokenManager (refreshToken_cfg config))
             (retryConfig config) w of
        (Inl error, tr, w1) \<Rightarrow> (Inl error, w1)
      | (Inr accessTok, tr, w1) \<Rightarrow>
     (case (if eventState config = ''start'' \<or> eventState config = ''both''
            then sendPhase h config attrs accessTok Start w1
            else (Inr None, w1)) of
        (Inl error, w2) \<Rightarrow> (Inl error, w2)
      | (Inr startTimestamp, w2) \<Rightarrow>
     (case (if eventState config = ''stop'' \<or> eventState config = ''both''
            then sendPhase h config attrs accessTok Stop w2
            else (Inr None, w2)) of
        (Inl error, w3) \<Rightarrow> (Inl error, w3)
      | (Inr stopTimestamp, w3) \<Rightarrow>
          (let w4 = setOutput ''success'' ''true'' w3;
               w5 = (case startTimestamp of
                       Some t \<Rightarrow> if t \<noteq> [] then setOutput ''start_timestamp'' t w4 else w4
                     | None \<Rightarrow> w4);
               w6 = (case stopTimestamp of
                       Some t \<Rightarrow> if t \<noteq> [] then setOutput ''stop_timestamp'' t w5 else w5
                     | None \<Rightarrow> w5)
           in (Inr (), w6)))))))"

fun codeText :: "ErrorCode \<Rightarrow> string" where
  "codeText CONFIG_ERROR = ''CONFIG_ERROR''"
| "codeText INVALID_INPUT = ''INVALID_INPUT''"
| "codeText VALIDATION_ERROR = ''VALIDATION_ERROR''"
| "codeText TOKEN_EXCHANGE_ERROR = ''TOKEN_EXCHANGE_ERROR''"
| "codeText TOKEN_EXPIRED = ''TOKEN_EXPIRED''"
| "codeText UNAUTHORIZED = ''UNAUTHORIZED''"
| "codeText NETWORK_ERROR = ''NETWORK_ERROR''"
| "codeText TIMEOUT_ERROR = ''TIMEOUT_ERROR''"
| "codeText CONNECTION_ERROR = ''CONNECTION_ERROR''"
| "codeText API_ERROR = ''API_ERROR''"
| "codeText RATE_LIMIT_ERROR = ''RATE_LIMIT_ERROR''"
| "codeText SERVER_ERROR = ''SERVER_ERROR''"
| "codeText PLUGIN_ERROR = ''PLUGIN_ERROR''"
| "codeText PLUGIN_NOT_FOUND = ''PLUGIN_NOT_FOUND''"
| "codeText PLUGIN_INIT_ERROR = ''PLUGIN_INIT_ERROR''"
| "codeText CIRCUIT_BREAKER_OPEN = ''CIRCUIT_BREAKER_OPEN''"
| "codeText UNKNOWN_ERROR = ''UNKNOWN_ERROR''"

text \<open>
  The \<open>catch\<close> block: \<open>wrapError\<close> gives a \<open>Last9Error\<close> in every case, so the code is
  always appended to the message of \<open>setFailed\<close>.
\<close>

definition failureText :: "thrown \<Rightarrow> string" where
  "failureText error =
     (let wrappedError = wrapError error
      in className (code wrappedError) @ '': '' @ message wrappedError
           @ '' ('' @ codeText (code wrappedError) @ '')'')"

definition run :: "host \<Rightarrow> ContextProvider \<Rightarrow> world \<Rightarrow> world" where
  "run h context w =
     (case run_try h context w of
        (Inr u, w') \<Rightarrow> w'
      | (Inl error, w') \<Rightarrow>
          setOutput ''success'' ''false'' (w'\<lparr>failure := Some (failureText error)\<rparr>))"

section \<open>The course of a retried operation\<close>







section \<open>Example inputs\<close>

definition quiet_world :: world where
  "quiet_world =
     \<lparr>clock = 0, random = (\<lambda>k. 1 / 2), drawn = 0, slept = [],
      refreshes = (\<lambda>k. Rejects (Err (Last9 (NetworkError ''offline'')))), refreshed = [],
      sendings = (\<lambda>k. Rejects (Err (Last9 (NetworkError ''offline'')))), sent = [],
      cache = Map.empty, outputs = [], failure = None\<rparr>"

definition three_attempts :: RetryConfig where
  "three_attempts = \<lparr>maxAttempts = 3, backoffMs = Finite 1000, maxBackoffMs = Finite 30000\<rparr>"

definition always_offline :: "world \<Rightarrow> (thrown + string) \<times> world" where
  "always_offline w = (Inl (Err (Last9 (NetworkError ''offline''))), w)"


definition always_fine :: "world \<Rightarrow> (thrown + string) \<times> world" where
  "always_fine w = (Inr ''done'', w)"

definition bad_config :: "world \<Rightarrow> (thrown + string) \<times> world" where
  "bad_config w = (Inl (Err (Last9 (ConfigError ''Invalid config''))), w)"

definition toy_digest :: "string \<Rightarrow> string" where
  "toy_digest s = rev s"

definition hour_token :: TokenResponse where
  "hour_token = \<lparr>access_token = ''access-1'', refresh_token = ''refresh'',
                  expires_at = Finite 3600, issued_at = Finite 0, scopes = []\<rparr>"

definition half_second_token :: TokenResponse where
  "half_second_token = \<lparr>access_token = ''access-1'', refresh_token = ''refresh'',
                         expires_at = Finite 3601.5, issued_at = Finite 1.5, scopes = []\<rparr>"

definition half_second_world :: world where
  "half_second_world =
     quiet_world\<lparr>clock := 1500, refreshes := (\<lambda>k. Resolves half_second_token)\<rparr>"

definition endless_token :: TokenResponse where
  "endless_token = \<lparr>access_token = ''access-2'', refresh_token = ''refresh'',
                     expires_at = Finite 8640000000001, issued_at = Finite 3300, scopes = []\<rparr>"

definition granting_world :: world where
  "granting_world = quiet_world\<lparr>refreshes := (\<lambda>k. Resolves hour_token)\<rparr>"

definition endless_world :: world where
  "endless_world = quiet_world\<lparr>refreshes := (\<lambda>k. Resolves endless_token)\<rparr>"

definition one_date :: "string \<Rightarrow> int option" where
  "one_date s = (if s = ''Wed, 21 Oct 2015 07:28:00 GMT'' then Some 1445412480000 else None)"

definition plain_host :: host where
  "plain_host = \<lparr>digest = toy_digest,
                  isoTime = (\<lambda>t. ''2026-01-01T00:00:00.000Z''),
                  jsonParse = (\<lambda>t. Inl ''Unexpected token'')\<rparr>"

definition both_context :: ContextProvider where
  "both_context =
     \<lparr>inputs = [''refresh_token'' \<mapsto> ''refresh'', ''org_slug'' \<mapsto> ''acme'',
                ''env'' \<mapsto> ''production'', ''event_state'' \<mapsto> ''both''],
      github = None\<rparr>"

definition single_try_context :: ContextProvider where
  "single_try_context =
     \<lparr>inputs = [''refresh_token'' \<mapsto> ''refresh'', ''org_slug'' \<mapsto> ''acme'',
                ''env'' \<mapsto> ''production'', ''event_state'' \<mapsto> ''both'',
                ''max_retry_attempts'' \<mapsto> ''1''],
      github = None\<rparr>"

definition no_env_context :: ContextProvider where
  "no_env_context =
     \<lparr>inputs = [''refresh_token'' \<mapsto> ''refresh'', ''org_slug'' \<mapsto> ''acme''],
      github = None\<rparr>"

definition start_accepted :: ChangeEventResponse where
  "start_accepted = \<lparr>success = True, event_id = Some ''event-1'',
                      response_timestamp = Some ''2026-01-01T00:00:01.000Z''\<rparr>"

definition stop_refused_world :: world where
  "stop_refused_world =
     granting_world\<lparr>sendings := (\<lambda>k. if k = 0 then Resolves start_accepted
                                      else Rejects (Err (Last9 (ApiError ''Bad Request'' 400))))\<rparr>"

definition stop_offline_world :: world where
  "stop_offline_world =
     granting_world\<lparr>sendings := (\<lambda>k. if k = 0 then Resolves start_accepted
                                      else Rejects (Err (Last9 (NetworkError ''offline''))))\<rparr>"

definition accepting_world :: world where
  "accepting_world = granting_world\<lparr>sendings := (\<lambda>k. Resolves start_accepted)\<rparr>"

definition default_config :: ActionConfig where
  "default_config =
     \<lparr>apiBaseUrl = ''https://app.last9.io'', orgSlug = ''acme'', refreshToken_cfg = ''refresh'',
      dataSourceName = None, eventName = ''deployment'', eventState = ''stop'',
      includeGitHubAttributes = True, customAttributes = [],
      maxRetryAttempts = Some 3, retryBackoffMs = Some 1000, maxRetryBackoffMs = Some 30000\<rparr>"

section \<open>Properties\<close>

lemma overflowAt_large: "1 < overflowAt"
  by (simp add: overflowAt_def)

lemma fromReal_Finite: "- overflowAt < x \<Longrightarrow> x < overflowAt \<Longrightarrow> fromReal x = Finite x"
  by (simp add: fromReal_def)

lemma exponential_Finite:
  assumes "attemptNumber < 1024" and "0 \<le> baseMs" and "baseMs * 2 ^ attemptNumber < overflowAt"
  shows "exponential attemptNumber (Finite baseMs) = Finite (baseMs * 2 ^ attemptNumber)"
proof -
  have "0 \<le> baseMs * 2 ^ attemptNumber" using assms(2) by simp
  then have "fromReal (baseMs * 2 ^ attemptNumber) = Finite (baseMs * 2 ^ attemptNumber)"
    using assms(3) overflowAt_large by (intro fromReal_Finite) linarith+
  then show ?thesis
    using assms(1) by (simp add: exponential_def Math_pow2_def mult.commute)
qed

lemma draw_Finite:
  assumes "0 \<le> rnd" and "rnd < 1"
  shows "multiply (Finite rnd) (Finite 0.3) = Finite (rnd * 0.3)"
proof -
  have "rnd * 0.3 < overflowAt" "- overflowAt < rnd * 0.3"
    using assms overflowAt_large by linarith+
  then show ?thesis by (simp add: fromReal_Finite)
qed

lemma jitter_Finite:
  assumes "attemptNumber < 1024" and "0 \<le> baseMs" and "baseMs * 2 ^ attemptNumber < overflowAt"
    and "0 \<le> rnd" and "rnd < 1"
  shows "jitter rnd attemptNumber (Finite baseMs) = Finite (rnd * 0.3 * (baseMs * 2 ^ attemptNumber))"
proof -
  define E where "E = baseMs * 2 ^ attemptNumber"
  have E0: "0 \<le> E" using assms(2) by (simp add: E_def)
  have "rnd * E \<le> 1 * E" using assms(5) E0 by (intro mult_right_mono) simp_all
  then have le: "rnd * 0.3 * E \<le> E" using E0 by simp
  have ge: "0 \<le> rnd * 0.3 * E" using assms(4) E0 by simp
  have "fromReal (rnd * 0.3 * E) = Finite (rnd * 0.3 * E)"
    using le ge assms(3) overflowAt_large unfolding E_def [symmetric]
    by (intro fromReal_Finite) linarith+
  then show ?thesis
    using exponential_Finite [OF assms(1,2,3)] draw_Finite [OF assms(4,5)]
    by (simp add: jitter_def E_def)
qed

lemma jitter_onto:
  assumes "attemptNumber < 1024" and "0 \<le> baseMs" and "baseMs * 2 ^ attemptNumber < overflowAt"
    and "0 \<le> j" and "j < 0.3 * baseMs * 2 ^ attemptNumber"
  shows "\<exists>rnd. 0 \<le> rnd \<and> rnd < 1 \<and> jitter rnd attemptNumber (Finite baseMs) = Finite j"
proof -
  define c where "c = 0.3 * (baseMs * 2 ^ attemptNumber)"
  have pos: "0 < c" using assms(4,5) by (simp add: c_def)
  have r0: "0 \<le> j / c" using assms(4) pos by simp
  have r1: "j / c < 1" using assms(5) pos by (simp add: c_def)
  have "j / c * 0.3 * (baseMs * 2 ^ attemptNumber) = j / c * c"
    by (simp add: c_def)
  also have "\<dots> = j" using pos by simp
  finally have "jitter (j / c) attemptNumber (Finite baseMs) = Finite j"
    using jitter_Finite [OF assms(1,2,3) r0 r1] by simp
  then show ?thesis using r0 r1 by blast
qed

lemma backoff_Finite:
  assumes "attemptNumber < 1024" and "0 \<le> baseMs" and "baseMs * 2 ^ attemptNumber < overflowAt"
    and "0 \<le> rnd" and "rnd < 1" and "maxMs < overflowAt"
  shows "calculateBackoff rnd attemptNumber (Finite baseMs) (Finite maxMs)
           = Finite (min (baseMs * 2 ^ attemptNumber + rnd * 0.3 * (baseMs * 2 ^ attemptNumber)) maxMs)"
proof -
  define E where "E = baseMs * 2 ^ attemptNumber"
  have E0: "0 \<le> E" using assms(2) by (simp add: E_def)
  have ge: "0 \<le> rnd * 0.3 * E" using assms(4) E0 by simp
  have c: "calculateBackoff rnd attemptNumber (Finite baseMs) (Finite maxMs)
             = Math_min (fromReal (E + rnd * 0.3 * E)) (Finite maxMs)"
    using exponential_Finite [OF assms(1,2,3)] jitter_Finite [OF assms(1,2,3,4,5)]
    by (simp add: calculateBackoff_def E_def)
  show ?thesis
  proof (cases "E + rnd * 0.3 * E < overflowAt")
    case True
    have "- overflowAt < E + rnd * 0.3 * E" using E0 ge overflowAt_large by linarith
    then have "fromReal (E + rnd * 0.3 * E) = Finite (E + rnd * 0.3 * E)"
      using True by (rule fromReal_Finite)
    then show ?thesis unfolding c by (simp add: E_def)
  next
    case False
    then have "fromReal (E + rnd * 0.3 * E) = PlusInfinity" by (simp add: fromReal_def)
    moreover have "min (E + rnd * 0.3 * E) maxMs = maxMs" using False assms(6) by simp
    ultimately show ?thesis unfolding c by (simp add: E_def)
  qed
qed

lemma exponential_overflow:
  assumes "0 < baseMs" and "1024 \<le> attemptNumber \<or> overflowAt \<le> baseMs * 2 ^ attemptNumber"
  shows "exponential attemptNumber (Finite baseMs) = PlusInfinity"
proof (cases "attemptNumber < 1024")
  case True
  then have "overflowAt \<le> baseMs * 2 ^ attemptNumber" using assms(2) by simp
  then show ?thesis using True by (simp add: exponential_def Math_pow2_def fromReal_def mult.commute)
next
  case False
  then show ?thesis using assms(1) by (simp add: exponential_def Math_pow2_def)
qed

lemma backoff_overflow:
  assumes "0 < baseMs" and "1024 \<le> attemptNumber \<or> overflowAt \<le> baseMs * 2 ^ attemptNumber"
    and "0 < rnd" and "rnd < 1"
  shows "calculateBackoff rnd attemptNumber (Finite baseMs) (Finite maxMs) = Finite maxMs"
proof -
  have "0 \<le> rnd" using assms(3) by simp
  from draw_Finite [OF this assms(4)] assms(3)
  have "jitter rnd attemptNumber (Finite baseMs) = PlusInfinity"
    using exponential_overflow [OF assms(1,2)] by (simp add: jitter_def)
  then show ?thesis
    using exponential_overflow [OF assms(1,2)] by (simp add: calculateBackoff_def)
qed

lemma backoff_NaN:
  assumes "0 \<le> baseMs" and "1024 \<le> attemptNumber \<or> overflowAt \<le> baseMs * 2 ^ attemptNumber"
    and "baseMs = 0 \<or> rnd = 0"
  shows "calculateBackoff rnd attemptNumber (Finite baseMs) maxMs = NaN"
proof (cases "baseMs = 0")
  case True
  then have "1024 \<le> attemptNumber" using assms(2) overflowAt_large by auto
  then have "exponential attemptNumber (Finite baseMs) = NaN"
    using True by (simp add: exponential_def Math_pow2_def)
  then show ?thesis by (simp add: calculateBackoff_def jitter_def)
next
  case False
  then have r: "rnd = 0" and pos: "0 < baseMs" using assms(1,3) by simp_all
  have z: "multiply (Finite rnd) (Finite 0.3) = Finite 0"
    using r overflowAt_large by (simp add: fromReal_def)
  have e: "exponential attemptNumber (Finite baseMs) = PlusInfinity"
    using pos assms(2) by (rule exponential_overflow)
  have "jitter rnd attemptNumber (Finite baseMs) = NaN"
    using e z by (simp add: jitter_def)
  then show ?thesis using e by (simp add: calculateBackoff_def)
qed


text \<open>
  C8, amended. For every base delay \<open>\<ge> 0\<close>, every maximum \<open>\<ge>\<close> the base (both finite
  numbers of the host) and every draw of the random source in [0, 1):

  \<^item> as long as base * 2^attempt is a finite number of the host (attempt number below 1024
    and the product below 2^1024), the jitter lies between 0 and 0.3 * base * 2^attempt
    (below it for a positive base), the delay returned by \<open>calculateBackoff\<close> is the
    minimum of base * 2^attempt + jitter and the maximum, so at most the maximum, and the
    value before clamping is at least base * 2^attempt; every number in
    [0, 0.3 * base * 2^attempt) is the jitter of some draw in [0, 1), so this covers every
    jitter the claim speaks of;
  \<^item> once base * 2^attempt overflows, a positive base and a positive draw give the maximum;
  \<^item> once it overflows, a base of 0 or a draw of 0 gives \<open>NaN\<close>, which is not \<open><=\<close> the
    maximum.
\<close>

theorem calculateBackoff_bounds:
  assumes "0 \<le> baseMs" and "baseMs \<le> maxMs" and "maxMs < overflowAt"
    and "0 \<le> rnd" and "rnd < 1"
  shows "(attemptNumber < 1024 \<and> baseMs * 2 ^ attemptNumber < overflowAt \<longrightarrow>
            exponential attemptNumber (Finite baseMs) = Finite (baseMs * 2 ^ attemptNumber)
          \<and> (\<exists>j. jitter rnd attemptNumber (Finite baseMs) = Finite j
                 \<and> 0 \<le> j \<and> j \<le> 0.3 * baseMs * 2 ^ attemptNumber
                 \<and> (0 < baseMs \<longrightarrow> j < 0.3 * baseMs * 2 ^ attemptNumber)
                 \<and> calculateBackoff rnd attemptNumber (Finite baseMs) (Finite maxMs)
                     = Finite (min (baseMs * 2 ^ attemptNumber + j) maxMs))
          \<and> lessEq (calculateBackoff rnd attemptNumber (Finite baseMs) (Finite maxMs)) (Finite maxMs)
          \<and> lessEq (Finite (baseMs * 2 ^ attemptNumber))
               (add (exponential attemptNumber (Finite baseMs))
                    (jitter rnd attemptNumber (Finite baseMs)))
          \<and> (\<forall>j. 0 \<le> j \<and> j < 0.3 * baseMs * 2 ^ attemptNumber \<longrightarrow>
                 (\<exists>r. 0 \<le> r \<and> r < 1 \<and> jitter r attemptNumber (Finite baseMs) = Finite j)))
       \<and> ((1024 \<le> attemptNumber \<or> overflowAt \<le> baseMs * 2 ^ attemptNumber)
            \<and> 0 < baseMs \<and> 0 < rnd \<longrightarrow>
            calculateBackoff rnd attemptNumber (Finite baseMs) (Finite maxMs) = Finite maxMs)
       \<and> ((1024 \<le> attemptNumber \<or> overflowAt \<le> baseMs * 2 ^ attemptNumber)
            \<and> (baseMs = 0 \<or> rnd = 0) \<longrightarrow>
            calculateBackoff rnd attemptNumber (Finite baseMs) (Finite maxMs) = NaN
          \<and> \<not> lessEq (calculateBackoff rnd attemptNumber (Finite baseMs) (Finite maxMs))
                 (Finite maxMs))"
proof (intro conjI impI)
  assume fin: "attemptNumber < 1024 \<and> baseMs * 2 ^ attemptNumber < overflowAt"
  then have a: "attemptNumber < 1024" and b: "baseMs * 2 ^ attemptNumber < overflowAt"
    by simp_all
  define E where "E = baseMs * 2 ^ attemptNumber"
  define J where "J = rnd * 0.3 * E"
  have E0: "0 \<le> E" using assms(1) by (simp add: E_def)
  have J0: "0 \<le> J" using assms(4) E0 by (simp add: J_def)
  have "rnd * (0.3 * E) \<le> 1 * (0.3 * E)"
    using assms(5) E0 by (intro mult_right_mono) simp_all
  then have J1: "J \<le> 0.3 * baseMs * 2 ^ attemptNumber" by (simp add: J_def E_def)
  have J2: "J < 0.3 * baseMs * 2 ^ attemptNumber" if "0 < baseMs"
  proof -
    have "0 < 0.3 * E" using that by (simp add: E_def)
    then have "rnd * (0.3 * E) < 1 * (0.3 * E)"
      using assms(5) by (intro mult_strict_right_mono) simp_all
    then show ?thesis by (simp add: J_def E_def)
  qed
  show e: "exponential attemptNumber (Finite baseMs) = Finite (baseMs * 2 ^ attemptNumber)"
    using a assms(1) b by (rule exponential_Finite)
  have j: "jitter rnd attemptNumber (Finite baseMs) = Finite J"
    unfolding J_def E_def using a assms(1) b assms(4,5) by (rule jitter_Finite)
  have c: "calculateBackoff rnd attemptNumber (Finite baseMs) (Finite maxMs)
             = Finite (min (baseMs * 2 ^ attemptNumber + J) maxMs)"
    unfolding J_def E_def using a assms(1) b assms(4,5,3) by (rule backoff_Finite)
  show "\<exists>j. jitter rnd attemptNumber (Finite baseMs) = Finite j
                 \<and> 0 \<le> j \<and> j \<le> 0.3 * baseMs * 2 ^ attemptNumber
                 \<and> (0 < baseMs \<longrightarrow> j < 0.3 * baseMs * 2 ^ attemptNumber)
                 \<and> calculateBackoff rnd attemptNumber (Finite baseMs) (Finite maxMs)
                     = Finite (min (baseMs * 2 ^ attemptNumber + j) maxMs)"
    using j J0 J1 J2 c by blast
  show "lessEq (calculateBackoff rnd attemptNumber (Finite baseMs) (Finite maxMs)) (Finite maxMs)"
    unfolding c by simp
  show "lessEq (Finite (baseMs * 2 ^ attemptNumber))
               (add (exponential attemptNumber (Finite baseMs))
                    (jitter rnd attemptNumber (Finite baseMs)))"
  proof -
    have "0 \<le> baseMs * 2 ^ attemptNumber" using assms(1) by simp
    then have "\<not> baseMs * 2 ^ attemptNumber + J \<le> - overflowAt"
      using J0 overflowAt_large by linarith
    then show ?thesis unfolding e j using J0 by (simp add: fromReal_def)
  qed
  show "\<forall>j. 0 \<le> j \<and> j < 0.3 * baseMs * 2 ^ attemptNumber \<longrightarrow>
                 (\<exists>r. 0 \<le> r \<and> r < 1 \<and> jitter r attemptNumber (Finite baseMs) = Finite j)"
    using jitter_onto [OF a assms(1) b] by blast
next
  assume h: "(1024 \<le> attemptNumber \<or> overflowAt \<le> baseMs * 2 ^ attemptNumber)
            \<and> 0 < baseMs \<and> 0 < rnd"
  then show "calculateBackoff rnd attemptNumber (Finite baseMs) (Finite maxMs) = Finite maxMs"
    using backoff_overflow [of baseMs attemptNumber rnd maxMs] assms(5) by blast
next
  assume h: "(1024 \<le> attemptNumber \<or> overflowAt \<le> baseMs * 2 ^ attemptNumber)
            \<and> (baseMs = 0 \<or> rnd = 0)"
  then show n: "calculateBackoff rnd attemptNumber (Finite baseMs) (Finite maxMs) = NaN"
    using backoff_NaN [of baseMs attemptNumber rnd "Finite maxMs"] assms(1) by blast
  show "\<not> lessEq (calculateBackoff rnd attemptNumber (Finite baseMs) (Finite maxMs)) (Finite maxMs)"
    unfolding n by simp
qed

theorem calculateBackoff_bounds_witness:
  "calculateBackoff (1/2) 3 (Finite 1000) (Finite 30000) = Finite 9200
   \<and> lessEq (calculateBackoff (1/2) 3 (Finite 1000) (Finite 30000)) (Finite 30000)
   \<and> jitter (1/2) 3 (Finite 1000) = Finite 1200
   \<and> lessEq (Finite 8000) (add (exponential 3 (Finite 1000)) (jitter (1/2) 3 (Finite 1000)))
   \<and> calculateBackoff (1/2) 1024 (Finite 1000) (Finite 30000) = Finite 30000
   \<and> calculateBackoff (1/2) 1024 (Finite 0) (Finite 30000) = NaN"
proof -
  have side: "(0::real) \<le> 1000" "(1000::real) \<le> 30000" "(30000::real) < overflowAt"
      "(0::real) \<le> 1/2" "(1/2::real) < 1" "(0::real) \<le> 0" "(0::real) \<le> 30000"
    by (simp_all add: overflowAt_def)
  have small: "(3::nat) < 1024 \<and> (1000::real) * 2 ^ 3 < overflowAt"
    by (simp add: overflowAt_def)
  from calculateBackoff_bounds [OF side(1,2,3,4,5), of 3] small
  have a: "lessEq (calculateBackoff (1/2) 3 (Finite 1000) (Finite 30000)) (Finite 30000)"
    and b: "lessEq (Finite (1000 * 2 ^ 3)) (add (exponential 3 (Finite 1000)) (jitter (1/2) 3 (Finite 1000)))"
    by blast+
  have large: "((1024::nat) \<le> 1024 \<or> overflowAt \<le> 1000 * 2 ^ 1024) \<and> (0::real) < 1000 \<and> (0::real) < 1/2"
    by simp
  from calculateBackoff_bounds [OF side(1,2,3,4,5), of 1024] large
  have c: "calculateBackoff (1/2) 1024 (Finite 1000) (Finite 30000) = Finite 30000"
    by blast
  have zero: "((1024::nat) \<le> 1024 \<or> overflowAt \<le> 0 * 2 ^ 1024) \<and> ((0::real) = 0 \<or> (1/2::real) = 0)"
    by simp
  from calculateBackoff_bounds [OF side(6,7,3,4,5), of 1024] zero
  have d: "calculateBackoff (1/2) 1024 (Finite 0) (Finite 30000) = NaN"
    by blast
  have e: "calculateBackoff (1/2) 3 (Finite 1000) (Finite 30000) = Finite 9200"
      "jitter (1/2) 3 (Finite 1000) = Finite 1200"
    by (simp_all add: calculateBackoff_def exponential_def jitter_def Math_pow2_def fromReal_def
        overflowAt_def)
  show ?thesis using a b c d e by simp
qed

text \<open>
  C8 as stated fails here: attempt number 1024, base 1000, maximum 30000 and a draw of 0,
  whose jitter 0 lies in [0, 0.3 * base * 2^attempt). \<open>Math.pow(2, 1024)\<close> is \<open>Infinity\<close>,
  the jitter \<open>0 * 0.3 * Infinity\<close> is \<open>NaN\<close>, and so is the result.
\<close>

theorem calculateBackoff_overflow_counterexample:
  "(0::real) \<le> 1000 \<and> (1000::real) \<le> 30000 \<and> (0::real) < 0.3 * 1000 * 2 ^ 1024
   \<and> calculateBackoff 0 1024 (Finite 1000) (Finite 30000) = NaN
   \<and> \<not> lessEq (calculateBackoff 0 1024 (Finite 1000) (Finite 30000)) (Finite 30000)"
  by (simp add: calculateBackoff_def exponential_def jitter_def Math_pow2_def fromReal_def
      overflowAt_def)


subsection \<open>The retry loop, one case at a time\<close>

lemma loop_done: "\<not> int a < maxAttempts config \<Longrightarrow> withRetry_loop operation config a le w = (Inl le, [], w)"
  by (simp add: withRetry_loop.simps)

lemma loop_success:
  "int a < maxAttempts config \<Longrightarrow> operation w = (Inr v, w1) \<Longrightarrow>
   withRetry_loop operation config a le w = (Inr v, [Succeeded a], w1)"
  by (simp add: withRetry_loop.simps)

lemma loop_last:
  "int a = maxAttempts config - 1 \<Longrightarrow> operation w = (Inl e, w1) \<Longrightarrow>
   withRetry_loop operation config a le w = (Inl e, [Failed a e], w1)"
  by (simp add: withRetry_loop.simps)

lemma loop_fatal:
  "int a < maxAttempts config - 1 \<Longrightarrow> operation w = (Inl e, w1) \<Longrightarrow> \<not> isRetryableError e \<Longrightarrow>
   withRetry_loop operation config a le w = (Inl (rethrown e), [Failed a e], w1)"
  by (simp add: withRetry_loop.simps)

lemma loop_retry:
  "int a < maxAttempts config - 1 \<Longrightarrow> operation w = (Inl e, w1) \<Longrightarrow> isRetryableError e \<Longrightarrow>
   withRetry_loop operation config a le w =
     prepend [Failed a e,
              Slept a (calculateBackoff (random w1 (drawn w1)) a (backoffMs config) (maxBackoffMs config))]
       (withRetry_loop operation config (Suc a) e
          (sleep (calculateBackoff (random w1 (drawn w1)) a (backoffMs config) (maxBackoffMs config))
             (w1\<lparr>drawn := Suc (drawn w1)\<rparr>)))"
  by (simp add: withRetry_loop.simps Math_random_def Let_def)















text \<open>
  C4. Under a policy with \<open>maxAttempts \<ge> 1\<close>, whatever its value, when the first invocation
  throws an error that is not retryable, \<open>withRetry\<close> invokes the operation once, throws
  that same error and does not sleep. (The thrown value is an error or any other value but
  \<open>undefined\<close>/\<open>null\<close>.)
\<close>

theorem withRetry_fails_fast:
  assumes "1 \<le> maxAttempts config"
    and "operation w = (Inl error, w1)"
    and "\<not> isRetryableError error"
    and "error \<noteq> Undefined"
  shows "withRetry operation config w = (Inl error, [Failed 0 error], w1)
       \<and> attempts (fst (snd (withRetry operation config w))) = [0]
       \<and> sleeps (fst (snd (withRetry operation config w))) = []"
proof -
  have "withRetry operation config w = (Inl error, [Failed 0 error], w1)"
  proof (cases "maxAttempts config = 1")
    case True
    then show ?thesis
      using loop_last [where operation = operation and w = w and a = 0] assms(2)
      by (simp add: withRetry_def)
  next
    case False
    then have "int 0 < maxAttempts config - 1" using assms(1) by simp
    then show ?thesis
      using loop_fatal [where operation = operation and w = w and a = 0, OF _ assms(2,3)] assms(4)
      by (simp add: withRetry_def rethrown_def)
  qed
  then show ?thesis by simp
qed

theorem withRetry_fails_fast_witness:
  "withRetry bad_config three_attempts quiet_world =
     (Inl (Err (Last9 (ConfigError ''Invalid config''))),
      [Failed 0 (Err (Last9 (ConfigError ''Invalid config'')))], quiet_world)
   \<and> \<not> isRetryableError (Err (Last9 (ConfigError ''Invalid config'')))"
  using withRetry_fails_fast [of three_attempts bad_config quiet_world
      "Err (Last9 (ConfigError ''Invalid config''))" quiet_world]
  by (simp add: three_attempts_def bad_config_def ConfigError_def mkError_def)

text \<open>
  C10. With \<open>maxAttempts \<le> 0\<close> the loop body never runs: \<open>withRetry\<close> invokes nothing, leaves
  the world as it was and throws \<open>undefined\<close>, the initial value of \<open>lastError\<close>. With
  \<open>maxAttempts \<ge> 1\<close> there is at least one invocation, the first at attempt number 0.
\<close>

theorem withRetry_nonpositive:
  "(maxAttempts config \<le> 0 \<longrightarrow> withRetry operation config w = (Inl Undefined, [], w))
   \<and> (1 \<le> maxAttempts config \<longrightarrow>
        attempts (fst (snd (withRetry operation config w))) \<noteq> []
        \<and> hd (attempts (fst (snd (withRetry operation config w)))) = 0)"
proof (intro conjI impI)
  assume "maxAttempts config \<le> 0"
  then show "withRetry operation config w = (Inl Undefined, [], w)"
    by (simp add: withRetry_def withRetry_loop.simps)
next
  assume h: "1 \<le> maxAttempts config"
  obtain r w1 where op: "operation w = (r, w1)" by (cases "operation w") auto
  obtain res tr w' where rest: "withRetry_loop operation config (Suc 0) (case r of Inl e \<Rightarrow> e | Inr _ \<Rightarrow> Undefined)
           (sleep (calculateBackoff (random w1 (drawn w1)) 0 (backoffMs config) (maxBackoffMs config)) (w1\<lparr>drawn := Suc (drawn w1)\<rparr>)) = (res, tr, w')"
    using prod_cases3 by blast
  have "attempts (fst (snd (withRetry operation config w))) \<noteq> []
        \<and> hd (attempts (fst (snd (withRetry operation config w)))) = 0"
    using h op rest
    by (cases r) (simp_all add: withRetry_def withRetry_loop.simps [of operation config 0]
        prepend_def Math_random_def Let_def)
  then show "attempts (fst (snd (withRetry operation config w))) \<noteq> []"
    and "hd (attempts (fst (snd (withRetry operation config w)))) = 0" by simp_all
qed

theorem withRetry_nonpositive_witness:
  "withRetry always_offline (three_attempts\<lparr>maxAttempts := 0\<rparr>) quiet_world
      = (Inl Undefined, [], quiet_world)
   \<and> withRetry always_offline (three_attempts\<lparr>maxAttempts := -2\<rparr>) quiet_world
      = (Inl Undefined, [], quiet_world)
   \<and> hd (attempts (fst (snd (withRetry always_offline (three_attempts\<lparr>maxAttempts := 1\<rparr>) quiet_world)))) = 0"
  using withRetry_nonpositive [of "three_attempts\<lparr>maxAttempts := 0\<rparr>" always_offline quiet_world]
    withRetry_nonpositive [of "three_attempts\<lparr>maxAttempts := -2\<rparr>" always_offline quiet_world]
    withRetry_nonpositive [of "three_attempts\<lparr>maxAttempts := 1\<rparr>" always_offline quiet_world]
  by simp

subsection \<open>The token manager\<close>

lemma getAccessToken_hit:
  "cache w (getCacheKey sha256hex rt) = Some c \<Longrightarrow>
   clock w < (expiresAt c div 1000 - expiryBufferSeconds tm) * 1000 \<Longrightarrow>
   getAccessToken sha256hex tm rt w = (Inr (accessToken c), w)"
  by (simp add: getAccessToken_def cachedAndValid_def isTokenExpired_def isExpired_def
      Let_def algebra_simps)

lemma getAccessToken_stale:
  "cache w (getCacheKey sha256hex rt) = Some c \<Longrightarrow>
   (expiresAt c div 1000 - expiryBufferSeconds tm) * 1000 \<le> clock w \<Longrightarrow>
   getAccessToken sha256hex tm rt w = exchangeAndCache (getCacheKey sha256hex rt) rt w"
  by (simp add: getAccessToken_def cachedAndValid_def isTokenExpired_def isExpired_def
      Let_def algebra_simps)

lemma getAccessToken_miss:
  "cache w (getCacheKey sha256hex rt) = None \<Longrightarrow>
   getAccessToken sha256hex tm rt w = exchangeAndCache (getCacheKey sha256hex rt) rt w"
  by (simp add: getAccessToken_def cachedAndValid_def Let_def)

lemma exchange_resolves:
  "refreshes w (length (refreshed w)) = Resolves r \<Longrightarrow>
   newDate (multiply (expires_at r) (Finite 1000)) = Some expiry \<Longrightarrow>
   exchangeAndCache k rt w =
     (Inr (access_token r),
      w\<lparr>refreshed := refreshed w @ [rt],
        cache := (cache w)(k \<mapsto> \<lparr>accessToken = access_token r, refreshToken = refresh_token r,
                                 expiresAt = expiry, cachedAt = clock w\<rparr>)\<rparr>)"
  by (simp add: exchangeAndCache_def refreshAccessToken_def Let_def)

lemma exchange_invalid:
  "refreshes w (length (refreshed w)) = Resolves r \<Longrightarrow>
   newDate (multiply (expires_at r) (Finite 1000)) = None \<Longrightarrow>
   exchangeAndCache k rt w =
     (Inl (Err (Last9 (TokenExchangeError
        ''Failed to exchange refresh token: Invalid time value'' None))),
      w\<lparr>refreshed := refreshed w @ [rt], cache := (cache w)(k := None)\<rparr>)"
  by (simp add: exchangeAndCache_def refreshAccessToken_def Let_def)

lemma exchange_rejects:
  "refreshes w (length (refreshed w)) = Rejects error \<Longrightarrow>
   \<exists>msg. exchangeAndCache k rt w =
     (Inl (Err (Last9 (TokenExchangeError msg None))),
      w\<lparr>refreshed := refreshed w @ [rt], cache := (cache w)(k := None)\<rparr>)"
  by (cases error) (auto simp: exchangeAndCache_def refreshAccessToken_def Let_def)

lemma exchange_requests:
  "refreshed (snd (exchangeAndCache k rt w)) = refreshed w @ [rt]"
  by (cases "refreshes w (length (refreshed w))")
     (auto simp: exchangeAndCache_def refreshAccessToken_def Let_def
           split: thrown.splits option.splits)

lemma hit_keeps_world:
  "getAccessToken sha256hex tm rt w = (res, w') \<Longrightarrow> refreshed w' = refreshed w @ [rt] \<Longrightarrow>
   getAccessToken sha256hex tm rt w = exchangeAndCache (getCacheKey sha256hex rt) rt w"
  by (auto simp: getAccessToken_def Let_def split: if_splits option.splits)

lemma newDate_whole:
  assumes "newDate (multiply (Finite s) (Finite 1000)) = Some expiry"
    and "s * 1000 = real_of_int t"
  shows "expiry = t"
proof -
  have "newDate (fromReal (real_of_int t)) = Some expiry"
    using assms by simp
  then show ?thesis
    by (auto simp: newDate_def fromReal_def split: if_splits)
qed

lemma whole_seconds:
  "((t + 3600 * 1000) div 1000 - 300) * 1000 = t - t mod 1000 + 3300 * 1000" for t :: int
proof -
  have "(t + 3600 * 1000) div 1000 = t div 1000 + 3600" by simp
  moreover have "t div 1000 * 1000 = t - t mod 1000"
    by (simp add: minus_mod_eq_div_mult)
  ultimately show ?thesis by (simp add: algebra_simps)
qed


text \<open>
  C5, amended. Times are in milliseconds, as \<open>Date.now()\<close> gives them. Let a call of
  \<open>getAccessToken\<close> at time \<open>clock w0\<close> exchange the refresh token with success, the
  response expiring exactly 3600 s later (\<open>expires_at\<close>, in seconds, is that time whatever
  its fraction of a second), under a buffer of 300 s, and let \<open>w\<close> be any later state with
  the cache as that call left it. The code compares the clock with the expiry rounded down
  to a whole second (\<open>Math.floor\<close>), so the lease ends at
  \<open>clock w0 - clock w0 mod 1000 + 3300 s\<close>, up to 999 ms before \<open>clock w0 + 3300 s\<close> and
  equal to it when the exchange fell on a whole second:

  \<^item> a call for the same refresh token before that time (so every call more than 999 ms
    before \<open>clock w0 + 3300 s\<close>) returns the cached access token and changes nothing (no
    exchange);
  \<^item> a call at or after that time (so every call at or after \<open>clock w0 + 3300 s\<close>) invokes
    the exchange once more; when it resolves and the new expiry is a valid date, the entry
    of the key is a new record built from the new response alone; when it resolves with an
    expiry that is no valid date, or is rejected, the entry is removed and a TokenExchange
    error comes back.

  The last three conjuncts hold for any buffer and any entry: once
  \<open>now \<ge> expiresAt - buffer\<close> the call goes to the exchange, so the cached token is not what
  it returns; the exchange is invoked exactly from \<open>(expiresAt in whole seconds - buffer)\<close>
  on, and before that time the cached token is returned.
\<close>

theorem token_cache_lease:
  "(expiryBufferSeconds tm = 300
    \<and> getAccessToken sha256hex tm rt w0 = (Inr tok, w1)
    \<and> refreshed w1 = refreshed w0 @ [rt]
    \<and> refreshes w0 (length (refreshed w0)) = Resolves r
    \<and> expires_at r = Finite s
    \<and> s * 1000 = real_of_int (clock w0 + 3600 * 1000)
    \<and> cache w = cache w1
    \<longrightarrow>
      tok = access_token r
    \<and> cache w1 (getCacheKey sha256hex rt)
         = Some \<lparr>accessToken = access_token r, refreshToken = refresh_token r,
                 expiresAt = clock w0 + 3600 * 1000, cachedAt = clock w0\<rparr>
    \<and> (clock w < clock w0 - clock w0 mod 1000 + 3300 * 1000 \<longrightarrow>
          getAccessToken sha256hex tm rt w = (Inr (access_token r), w))
    \<and> (clock w0 mod 1000 = 0 \<and> clock w < clock w0 + 3300 * 1000 \<longrightarrow>
          getAccessToken sha256hex tm rt w = (Inr (access_token r), w))
    \<and> (clock w < clock w0 + 3300 * 1000 - 999 \<longrightarrow>
          getAccessToken sha256hex tm rt w = (Inr (access_token r), w))
    \<and> (clock w0 - clock w0 mod 1000 + 3300 * 1000 \<le> clock w \<or> clock w0 + 3300 * 1000 \<le> clock w
        \<longrightarrow>
          getAccessToken sha256hex tm rt w = exchangeAndCache (getCacheKey sha256hex rt) rt w
        \<and> refreshed (snd (getAccessToken sha256hex tm rt w)) = refreshed w @ [rt]
        \<and> (\<forall>r2 expiry. refreshes w (length (refreshed w)) = Resolves r2
              \<and> newDate (multiply (expires_at r2) (Finite 1000)) = Some expiry \<longrightarrow>
              getAccessToken sha256hex tm rt w =
                (Inr (access_token r2),
                 w\<lparr>refreshed := refreshed w @ [rt],
                   cache := (cache w)(getCacheKey sha256hex rt \<mapsto>
                      \<lparr>accessToken = access_token r2, refreshToken = refresh_token r2,
                       expiresAt = expiry, cachedAt = clock w\<rparr>)\<rparr>))
        \<and> (\<forall>r2. refreshes w (length (refreshed w)) = Resolves r2
              \<and> newDate (multiply (expires_at r2) (Finite 1000)) = None \<longrightarrow>
              getAccessToken sha256hex tm rt w =
                (Inl (Err (Last9 (TokenExchangeError
                   ''Failed to exchange refresh token: Invalid time value'' None))),
                 w\<lparr>refreshed := refreshed w @ [rt],
                   cache := (cache w)(getCacheKey sha256hex rt := None)\<rparr>))
        \<and> (\<forall>error. refreshes w (length (refreshed w)) = Rejects error \<longrightarrow>
              cache (snd (getAccessToken sha256hex tm rt w)) (getCacheKey sha256hex rt) = None
              \<and> (\<exists>msg. fst (getAccessToken sha256hex tm rt w)
                          = Inl (Err (Last9 (TokenExchangeError msg None)))))))
   \<and> (\<forall>c. cache w (getCacheKey sha256hex rt) = Some c
            \<and> expiresAt c - expiryBufferSeconds tm * 1000 \<le> clock w \<longrightarrow>
          getAccessToken sha256hex tm rt w = exchangeAndCache (getCacheKey sha256hex rt) rt w
          \<and> refreshed (snd (getAccessToken sha256hex tm rt w)) = refreshed w @ [rt])
   \<and> (\<forall>c. cache w (getCacheKey sha256hex rt) = Some c
            \<and> (expiresAt c div 1000 - expiryBufferSeconds tm) * 1000 \<le> clock w \<longrightarrow>
          getAccessToken sha256hex tm rt w = exchangeAndCache (getCacheKey sha256hex rt) rt w
          \<and> refreshed (snd (getAccessToken sha256hex tm rt w)) = refreshed w @ [rt])
   \<and> (\<forall>c. cache w (getCacheKey sha256hex rt) = Some c
            \<and> clock w < (expiresAt c div 1000 - expiryBufferSeconds tm) * 1000 \<longrightarrow>
          getAccessToken sha256hex tm rt w = (Inr (accessToken c), w))"
proof -
  let ?k = "getCacheKey sha256hex rt"
  have hit: "getAccessToken sha256hex tm rt w = (Inr (accessToken c), w)"
    if "cache w ?k = Some c \<and> clock w < (expiresAt c div 1000 - expiryBufferSeconds tm) * 1000"
    for c
    using that getAccessToken_hit by blast
  have stale: "getAccessToken sha256hex tm rt w = exchangeAndCache ?k rt w
          \<and> refreshed (snd (getAccessToken sha256hex tm rt w)) = refreshed w @ [rt]"
    if "cache w ?k = Some c \<and> (expiresAt c div 1000 - expiryBufferSeconds tm) * 1000 \<le> clock w"
    for c
  proof -
    have g: "getAccessToken sha256hex tm rt w = exchangeAndCache ?k rt w"
      using that getAccessToken_stale by blast
    then show ?thesis by (simp add: exchange_requests)
  qed
  have never: "getAccessToken sha256hex tm rt w = exchangeAndCache ?k rt w
          \<and> refreshed (snd (getAccessToken sha256hex tm rt w)) = refreshed w @ [rt]"
    if h: "cache w ?k = Some c \<and> expiresAt c - expiryBufferSeconds tm * 1000 \<le> clock w"
    for c
  proof -
    have "expiresAt c div 1000 * 1000 \<le> expiresAt c" by simp
    then have "(expiresAt c div 1000 - expiryBufferSeconds tm) * 1000 \<le> clock w"
      using h by (simp add: algebra_simps)
    then show ?thesis using h stale by blast
  qed
  have lease: "tok = access_token r
    \<and> cache w1 ?k
         = Some \<lparr>accessToken = access_token r, refreshToken = refresh_token r,
                 expiresAt = clock w0 + 3600 * 1000, cachedAt = clock w0\<rparr>
    \<and> (clock w < clock w0 - clock w0 mod 1000 + 3300 * 1000 \<longrightarrow>
          getAccessToken sha256hex tm rt w = (Inr (access_token r), w))
    \<and> (clock w0 mod 1000 = 0 \<and> clock w < clock w0 + 3300 * 1000 \<longrightarrow>
          getAccessToken sha256hex tm rt w = (Inr (access_token r), w))
    \<and> (clock w < clock w0 + 3300 * 1000 - 999 \<longrightarrow>
          getAccessToken sha256hex tm rt w = (Inr (access_token r), w))
    \<and> (clock w0 - clock w0 mod 1000 + 3300 * 1000 \<le> clock w \<or> clock w0 + 3300 * 1000 \<le> clock w
        \<longrightarrow>
          getAccessToken sha256hex tm rt w = exchangeAndCache ?k rt w
        \<and> refreshed (snd (getAccessToken sha256hex tm rt w)) = refreshed w @ [rt]
        \<and> (\<forall>r2 expiry. refreshes w (length (refreshed w)) = Resolves r2
              \<and> newDate (multiply (expires_at r2) (Finite 1000)) = Some expiry \<longrightarrow>
              getAccessToken sha256hex tm rt w =
                (Inr (access_token r2),
                 w\<lparr>refreshed := refreshed w @ [rt],
                   cache := (cache w)(?k \<mapsto>
                      \<lparr>accessToken = access_token r2, refreshToken = refresh_token r2,
                       expiresAt = expiry, cachedAt = clock w\<rparr>)\<rparr>))
        \<and> (\<forall>r2. refreshes w (length (refreshed w)) = Resolves r2
              \<and> newDate (multiply (expires_at r2) (Finite 1000)) = None \<longrightarrow>
              getAccessToken sha256hex tm rt w =
                (Inl (Err (Last9 (TokenExchangeError
                   ''Failed to exchange refresh token: Invalid time value'' None))),
                 w\<lparr>refreshed := refreshed w @ [rt],
                   cache := (cache w)(?k := None)\<rparr>))
        \<and> (\<forall>error. refreshes w (length (refreshed w)) = Rejects error \<longrightarrow>
              cache (snd (getAccessToken sha256hex tm rt w)) ?k = None
              \<and> (\<exists>msg. fst (getAccessToken sha256hex tm rt w)
                          = Inl (Err (Last9 (TokenExchangeError msg None))))))"
    if h: "expiryBufferSeconds tm = 300
    \<and> getAccessToken sha256hex tm rt w0 = (Inr tok, w1)
    \<and> refreshed w1 = refreshed w0 @ [rt]
    \<and> refreshes w0 (length (refreshed w0)) = Resolves r
    \<and> expires_at r = Finite s
    \<and> s * 1000 = real_of_int (clock w0 + 3600 * 1000)
    \<and> cache w = cache w1"
  proof -
    let ?c = "\<lparr>accessToken = access_token r, refreshToken = refresh_token r,
               expiresAt = clock w0 + 3600 * 1000, cachedAt = clock w0\<rparr>"
    let ?T = "clock w0 - clock w0 mod 1000 + 3300 * 1000"
    have b: "expiryBufferSeconds tm = 300"
      and call: "getAccessToken sha256hex tm rt w0 = (Inr tok, w1)"
      and asked: "refreshed w1 = refreshed w0 @ [rt]"
      and grant: "refreshes w0 (length (refreshed w0)) = Resolves r"
      and num: "expires_at r = Finite s"
      and sec: "s * 1000 = real_of_int (clock w0 + 3600 * 1000)"
      and same: "cache w = cache w1"
      using h by blast+
    have first: "exchangeAndCache ?k rt w0 = (Inr tok, w1)"
      using hit_keeps_world [OF call asked] call by simp
    obtain expiry where valid: "newDate (multiply (expires_at r) (Finite 1000)) = Some expiry"
    proof (cases "newDate (multiply (expires_at r) (Finite 1000))")
      case None
      from exchange_invalid [OF grant None, of ?k rt] first show ?thesis by simp
    next
      case (Some e)
      then show ?thesis using that by blast
    qed
    have expiry: "expiry = clock w0 + 3600 * 1000"
      using valid sec unfolding num by (rule newDate_whole)
    have "exchangeAndCache ?k rt w0 = (Inr (access_token r),
        w0\<lparr>refreshed := refreshed w0 @ [rt], cache := (cache w0)(?k \<mapsto> ?c)\<rparr>)"
      unfolding expiry [symmetric] using grant valid by (rule exchange_resolves)
    with first have tok: "tok = access_token r"
      and w1: "w1 = w0\<lparr>refreshed := refreshed w0 @ [rt], cache := (cache w0)(?k \<mapsto> ?c)\<rparr>"
      by auto
    have entry1: "cache w1 ?k = Some ?c" unfolding w1 by simp
    then have entry: "cache w ?k = Some ?c" using same by simp
    have thr: "(expiresAt ?c div 1000 - expiryBufferSeconds tm) * 1000 = ?T"
      unfolding b using whole_seconds [of "clock w0"] by simp
    have early: "getAccessToken sha256hex tm rt w = (Inr (access_token r), w)"
      if "clock w < ?T"
      using getAccessToken_hit [OF entry, of tm] thr that by simp
    have m: "0 \<le> clock w0 mod 1000" "clock w0 mod 1000 < 1000" by simp_all
    have early0: "getAccessToken sha256hex tm rt w = (Inr (access_token r), w)"
      if "clock w0 mod 1000 = 0 \<and> clock w < clock w0 + 3300 * 1000"
      using early that by simp
    have early1: "getAccessToken sha256hex tm rt w = (Inr (access_token r), w)"
      if "clock w < clock w0 + 3300 * 1000 - 999"
    proof -
      have "clock w < ?T" using that m by linarith
      then show ?thesis by (rule early)
    qed
    have late: "getAccessToken sha256hex tm rt w = exchangeAndCache ?k rt w
        \<and> refreshed (snd (getAccessToken sha256hex tm rt w)) = refreshed w @ [rt]
        \<and> (\<forall>r2 expiry. refreshes w (length (refreshed w)) = Resolves r2
              \<and> newDate (multiply (expires_at r2) (Finite 1000)) = Some expiry \<longrightarrow>
              getAccessToken sha256hex tm rt w =
                (Inr (access_token r2),
                 w\<lparr>refreshed := refreshed w @ [rt],
                   cache := (cache w)(?k \<mapsto>
                      \<lparr>accessToken = access_token r2, refreshToken = refresh_token r2,
                       expiresAt = expiry, cachedAt = clock w\<rparr>)\<rparr>))
        \<and> (\<forall>r2. refreshes w (length (refreshed w)) = Resolves r2
              \<and> newDate (multiply (expires_at r2) (Finite 1000)) = None \<longrightarrow>
              getAccessToken sha256hex tm rt w =
                (Inl (Err (Last9 (TokenExchangeError
                   ''Failed to exchange refresh token: Invalid time value'' None))),
                 w\<lparr>refreshed := refreshed w @ [rt],
                   cache := (cache w)(?k := None)\<rparr>))
        \<and> (\<forall>error. refreshes w (length (refreshed w)) = Rejects error \<longrightarrow>
              cache (snd (getAccessToken sha256hex tm rt w)) ?k = None
              \<and> (\<exists>msg. fst (getAccessToken sha256hex tm rt w)
                          = Inl (Err (Last9 (TokenExchangeError msg None)))))"
      if "?T \<le> clock w \<or> clock w0 + 3300 * 1000 \<le> clock w"
    proof -
      have "?T \<le> clock w" using that m by linarith
      then have g: "getAccessToken sha256hex tm rt w = exchangeAndCache ?k rt w"
        using getAccessToken_stale [OF entry, of tm] thr by simp
      have again: "refreshed (snd (getAccessToken sha256hex tm rt w)) = refreshed w @ [rt]"
        unfolding g by (rule exchange_requests)
      have ok: "getAccessToken sha256hex tm rt w =
                (Inr (access_token r2),
                 w\<lparr>refreshed := refreshed w @ [rt],
                   cache := (cache w)(?k \<mapsto>
                      \<lparr>accessToken = access_token r2, refreshToken = refresh_token r2,
                       expiresAt = expiry, cachedAt = clock w\<rparr>)\<rparr>)"
        if "refreshes w (length (refreshed w)) = Resolves r2
              \<and> newDate (multiply (expires_at r2) (Finite 1000)) = Some expiry" for r2 expiry
        unfolding g using that exchange_resolves by blast
      have bad: "getAccessToken sha256hex tm rt w =
                (Inl (Err (Last9 (TokenExchangeError
                   ''Failed to exchange refresh token: Invalid time value'' None))),
                 w\<lparr>refreshed := refreshed w @ [rt],
                   cache := (cache w)(?k := None)\<rparr>)"
        if "refreshes w (length (refreshed w)) = Resolves r2
              \<and> newDate (multiply (expires_at r2) (Finite 1000)) = None" for r2
        unfolding g using that exchange_invalid by blast
      have rej: "cache (snd (getAccessToken sha256hex tm rt w)) ?k = None
              \<and> (\<exists>msg. fst (getAccessToken sha256hex tm rt w)
                          = Inl (Err (Last9 (TokenExchangeError msg None))))"
        if "refreshes w (length (refreshed w)) = Rejects error" for error
      proof -
        from exchange_rejects [OF that, of ?k rt]
        obtain msg where "exchangeAndCache ?k rt w =
           (Inl (Err (Last9 (TokenExchangeError msg None))),
            w\<lparr>refreshed := refreshed w @ [rt], cache := (cache w)(?k := None)\<rparr>)" by blast
        then show ?thesis unfolding g by auto
      qed
      show ?thesis using g again ok bad rej by blast
    qed
    show ?thesis
      using tok entry1 early early0 early1 late by blast
  qed
  show ?thesis
    using lease never stale hit by blast
qed


theorem token_cache_lease_witness:
  "getAccessToken toy_digest (newTokenManager (Some 300)) ''refresh'' half_second_world
     = (Inr ''access-1'',
        half_second_world\<lparr>refreshed := [''refresh''],
          cache := [''hserfer'' \<mapsto> \<lparr>accessToken = ''access-1'', refreshToken = ''refresh'',
                                    expiresAt = 3601500, cachedAt = 1500\<rparr>]\<rparr>)
   \<and> getAccessToken toy_digest (newTokenManager (Some 300)) ''refresh''
        (half_second_world\<lparr>clock := 3300999, refreshed := [''refresh''],
          cache := [''hserfer'' \<mapsto> \<lparr>accessToken = ''access-1'', refreshToken = ''refresh'',
                                    expiresAt = 3601500, cachedAt = 1500\<rparr>]\<rparr>)
     = (Inr ''access-1'',
        half_second_world\<lparr>clock := 3300999, refreshed := [''refresh''],
          cache := [''hserfer'' \<mapsto> \<lparr>accessToken = ''access-1'', refreshToken = ''refresh'',
                                    expiresAt = 3601500, cachedAt = 1500\<rparr>]\<rparr>)
   \<and> refreshed (snd (getAccessToken toy_digest (newTokenManager (Some 300)) ''refresh''
        (half_second_world\<lparr>clock := 3301000, refreshed := [''refresh''],
          cache := [''hserfer'' \<mapsto> \<lparr>accessToken = ''access-1'', refreshToken = ''refresh'',
                                    expiresAt = 3601500, cachedAt = 1500\<rparr>]\<rparr>)))
     = [''refresh'', ''refresh'']
   \<and> getAccessToken toy_digest (newTokenManager (Some 300)) ''refresh''
        (half_second_world\<lparr>clock := 3301000, refreshes := (\<lambda>k. Resolves endless_token),
          refreshed := [''refresh''],
          cache := [''hserfer'' \<mapsto> \<lparr>accessToken = ''access-1'', refreshToken = ''refresh'',
                                    expiresAt = 3601500, cachedAt = 1500\<rparr>]\<rparr>)
     = (Inl (Err (Last9 (TokenExchangeError
                   ''Failed to exchange refresh token: Invalid time value'' None))),
        half_second_world\<lparr>clock := 3301000, refreshes := (\<lambda>k. Resolves endless_token),
          refreshed := [''refresh'', ''refresh''], cache := Map.empty\<rparr>)"
proof -
  let ?tm = "newTokenManager (Some 300)"
  let ?c = "\<lparr>accessToken = ''access-1'', refreshToken = ''refresh'',
             expiresAt = 3601500, cachedAt = 1500\<rparr>"
  let ?w1 = "half_second_world\<lparr>refreshed := [''refresh''], cache := [''hserfer'' \<mapsto> ?c]\<rparr>"
  have first: "getAccessToken toy_digest ?tm ''refresh'' half_second_world = (Inr ''access-1'', ?w1)"
    by (simp add: getAccessToken_def getCacheKey_def toy_digest_def cachedAndValid_def
        half_second_world_def quiet_world_def exchangeAndCache_def refreshAccessToken_def
        half_second_token_def newDate_def fromReal_def overflowAt_def Let_def)
  have hyp: "expiryBufferSeconds ?tm = 300
    \<and> getAccessToken toy_digest ?tm ''refresh'' half_second_world = (Inr ''access-1'', ?w1)
    \<and> refreshed ?w1 = refreshed half_second_world @ [''refresh'']
    \<and> refreshes half_second_world (length (refreshed half_second_world)) = Resolves half_second_token
    \<and> expires_at half_second_token = Finite 3601.5
    \<and> 3601.5 * 1000 = real_of_int (clock half_second_world + 3600 * 1000)"
    using first
    by (simp add: newTokenManager_def half_second_world_def quiet_world_def half_second_token_def)
  let ?at = "\<lambda>t. half_second_world\<lparr>clock := t, refreshed := [''refresh''],
                cache := [''hserfer'' \<mapsto> ?c]\<rparr>"
  let ?w = "half_second_world\<lparr>clock := 3301000, refreshes := (\<lambda>k. Resolves endless_token),
          refreshed := [''refresh''], cache := [''hserfer'' \<mapsto> ?c]\<rparr>"
  have same: "cache (?at t) = cache ?w1" "cache ?w = cache ?w1" for t
    by simp_all
  have before: "clock (?at 3300999)
                  < clock half_second_world - clock half_second_world mod 1000 + 3300 * 1000"
    by (simp add: half_second_world_def quiet_world_def)
  have after: "clock half_second_world - clock half_second_world mod 1000 + 3300 * 1000
                 \<le> clock (?at 3301000)"
     "clock half_second_world - clock half_second_world mod 1000 + 3300 * 1000 \<le> clock ?w"
    by (simp_all add: half_second_world_def quiet_world_def)
  have early: "getAccessToken toy_digest ?tm ''refresh'' (?at 3300999)
                 = (Inr (access_token half_second_token), ?at 3300999)"
    using token_cache_lease [of ?tm toy_digest "''refresh''" half_second_world "''access-1''" ?w1
        half_second_token "3601.5" "?at 3300999"] hyp same(1) [of 3300999] before
    by blast
  have late: "refreshed (snd (getAccessToken toy_digest ?tm ''refresh'' (?at 3301000)))
                 = refreshed (?at 3301000) @ [''refresh'']"
    using token_cache_lease [of ?tm toy_digest "''refresh''" half_second_world "''access-1''" ?w1
        half_second_token "3601.5" "?at 3301000"] hyp same(1) [of 3301000] after(1)
    by blast
  have endless: "refreshes ?w (length (refreshed ?w)) = Resolves endless_token
      \<and> newDate (multiply (expires_at endless_token) (Finite 1000)) = None"
    by (simp add: endless_token_def newDate_def fromReal_def overflowAt_def)
  have invalid: "getAccessToken toy_digest ?tm ''refresh'' ?w =
                (Inl (Err (Last9 (TokenExchangeError
                   ''Failed to exchange refresh token: Invalid time value'' None))),
                 ?w\<lparr>refreshed := refreshed ?w @ [''refresh''],
                   cache := (cache ?w)(getCacheKey toy_digest ''refresh'' := None)\<rparr>)"
    using token_cache_lease [of ?tm toy_digest "''refresh''" half_second_world "''access-1''" ?w1
        half_second_token "3601.5" ?w] hyp same(2) after(2) endless
    by blast
  show ?thesis
    using first early late invalid
    by (simp add: half_second_token_def getCacheKey_def toy_digest_def)
qed

text \<open>
  C5 as stated fails here: the exchange happens at 1500 ms and the response expires
  3600 s later, at 3601.5 s. A call at 3301200 ms, 300 ms before the 3300 s of the claim
  have passed, invokes the exchange again.
\<close>

theorem token_cache_lease_counterexample:
  "clock half_second_world = 1500
   \<and> expires_at half_second_token = Finite ((1500 + 3600 * 1000) / 1000)
   \<and> getAccessToken toy_digest (newTokenManager (Some 300)) ''refresh'' half_second_world
     = (Inr ''access-1'',
        half_second_world\<lparr>refreshed := [''refresh''],
          cache := [''hserfer'' \<mapsto> \<lparr>accessToken = ''access-1'', refreshToken = ''refresh'',
                                    expiresAt = 3601500, cachedAt = 1500\<rparr>]\<rparr>)
   \<and> (3301200::int) < 1500 + 3300 * 1000
   \<and> refreshed (snd (getAccessToken toy_digest (newTokenManager (Some 300)) ''refresh''
        (half_second_world\<lparr>clock := 3301200, refreshed := [''refresh''],
          cache := [''hserfer'' \<mapsto> \<lparr>accessToken = ''access-1'', refreshToken = ''refresh'',
                                    expiresAt = 3601500, cachedAt = 1500\<rparr>]\<rparr>)))
     = [''refresh'', ''refresh'']"
  by (simp add: getAccessToken_def getCacheKey_def toy_digest_def cachedAndValid_def
      isTokenExpired_def isExpired_def newTokenManager_def
      half_second_world_def quiet_world_def exchangeAndCache_def refreshAccessToken_def
      half_second_token_def newDate_def fromReal_def overflowAt_def Let_def)


text \<open>
  C9. When \<open>getAccessToken\<close> has no valid cached token and the exchange is rejected with
  any value (a retryable \<open>NetworkError\<close> or \<open>TimeoutError\<close> included), it removes the cache
  entry of the key and throws a \<open>TokenExchangeError\<close>, which is not retryable. Run under
  \<open>withRetry\<close> with any \<open>maxAttempts \<ge> 1\<close>, the call is made once: one failed attempt,
  one exchange request, no sleep.
\<close>

theorem exchange_failure_single_attempt:
  "\<not> cachedAndValid tm (clock w) (cache w (getCacheKey sha256hex rt))
   \<and> refreshes w (length (refreshed w)) = Rejects error
   \<longrightarrow>
     (\<exists>msg. getAccessToken sha256hex tm rt w =
               (Inl (Err (Last9 (TokenExchangeError msg None))),
                w\<lparr>refreshed := refreshed w @ [rt],
                  cache := (cache w)(getCacheKey sha256hex rt := None)\<rparr>)
           \<and> code (TokenExchangeError msg None) = TOKEN_EXCHANGE_ERROR
           \<and> \<not> isRetryableError (Err (Last9 (TokenExchangeError msg None)))
           \<and> (1 \<le> maxAttempts config \<longrightarrow>
                 withRetry (getAccessToken sha256hex tm rt) config w =
                   (Inl (Err (Last9 (TokenExchangeError msg None))),
                    [Failed 0 (Err (Last9 (TokenExchangeError msg None)))],
                    w\<lparr>refreshed := refreshed w @ [rt],
                      cache := (cache w)(getCacheKey sha256hex rt := None)\<rparr>)))"
proof
  assume h: "\<not> cachedAndValid tm (clock w) (cache w (getCacheKey sha256hex rt))
   \<and> refreshes w (length (refreshed w)) = Rejects error"
  let ?k = "getCacheKey sha256hex rt"
  let ?w' = "w\<lparr>refreshed := refreshed w @ [rt], cache := (cache w)(?k := None)\<rparr>"
  have g: "getAccessToken sha256hex tm rt w = exchangeAndCache ?k rt w"
    using h by (simp add: getAccessToken_def Let_def)
  obtain msg where m: "exchangeAndCache ?k rt w = (Inl (Err (Last9 (TokenExchangeError msg None))), ?w')"
    using exchange_rejects [of w error ?k rt] h by blast
  let ?f = "Err (Last9 (TokenExchangeError msg None))"
  have call: "getAccessToken sha256hex tm rt w = (Inl ?f, ?w')" using g m by simp
  have kind: "code (TokenExchangeError msg None) = TOKEN_EXCHANGE_ERROR"
    by (simp add: TokenExchangeError_def mkError_def)
  have fatal: "\<not> isRetryableError ?f"
    by (simp add: TokenExchangeError_def mkError_def)
  have once: "withRetry (getAccessToken sha256hex tm rt) config w = (Inl ?f, [Failed 0 ?f], ?w')"
    if "1 \<le> maxAttempts config"
  proof (cases "maxAttempts config = 1")
    case True
    then show ?thesis
      using loop_last [where operation = "getAccessToken sha256hex tm rt" and w = w and a = 0] call
      by (simp add: withRetry_def)
  next
    case False
    then have "int 0 < maxAttempts config - 1" using that by simp
    then show ?thesis
      using loop_fatal [where operation = "getAccessToken sha256hex tm rt" and w = w and a = 0,
          OF _ call fatal]
      by (simp add: withRetry_def rethrown_def)
  qed
  show "\<exists>msg. getAccessToken sha256hex tm rt w = (Inl (Err (Last9 (TokenExchangeError msg None))), ?w')
           \<and> code (TokenExchangeError msg None) = TOKEN_EXCHANGE_ERROR
           \<and> \<not> isRetryableError (Err (Last9 (TokenExchangeError msg None)))
           \<and> (1 \<le> maxAttempts config \<longrightarrow>
                 withRetry (getAccessToken sha256hex tm rt) config w =
                   (Inl (Err (Last9 (TokenExchangeError msg None))),
                    [Failed 0 (Err (Last9 (TokenExchangeError msg None)))], ?w'))"
    using call kind fatal once by blast
qed

theorem exchange_failure_single_attempt_witness:
  "isRetryableError (Err (Last9 (NetworkError ''offline'')))
   \<and> withRetry (getAccessToken toy_digest (newTokenManager None) ''refresh'') three_attempts quiet_world
      = (Inl (Err (Last9 (TokenExchangeError ''Failed to exchange refresh token: offline'' None))),
         [Failed 0 (Err (Last9 (TokenExchangeError ''Failed to exchange refresh token: offline'' None)))],
         quiet_world\<lparr>refreshed := [''refresh'']\<rparr>)"
proof -
  have hyp: "\<not> cachedAndValid (newTokenManager None) (clock quiet_world)
               (cache quiet_world (getCacheKey toy_digest ''refresh''))
      \<and> refreshes quiet_world (length (refreshed quiet_world))
           = Rejects (Err (Last9 (NetworkError ''offline'')))"
    by (simp add: cachedAndValid_def quiet_world_def)
  have pos: "1 \<le> maxAttempts three_attempts" by (simp add: three_attempts_def)
  have call: "getAccessToken toy_digest (newTokenManager None) ''refresh'' quiet_world
     = (Inl (Err (Last9 (TokenExchangeError ''Failed to exchange refresh token: offline'' None))),
        quiet_world\<lparr>refreshed := [''refresh'']\<rparr>)"
    by (simp add: getAccessToken_def cachedAndValid_def quiet_world_def exchangeAndCache_def
        refreshAccessToken_def NetworkError_def mkError_def Let_def)
  from exchange_failure_single_attempt [of "newTokenManager None" quiet_world toy_digest "''refresh''"
        "Err (Last9 (NetworkError ''offline''))" three_attempts] hyp pos
  obtain msg where
    c: "getAccessToken toy_digest (newTokenManager None) ''refresh'' quiet_world =
          (Inl (Err (Last9 (TokenExchangeError msg None))),
           quiet_world\<lparr>refreshed := refreshed quiet_world @ [''refresh''],
             cache := (cache quiet_world)(getCacheKey toy_digest ''refresh'' := None)\<rparr>)"
    and r: "withRetry (getAccessToken toy_digest (newTokenManager None) ''refresh'') three_attempts quiet_world =
          (Inl (Err (Last9 (TokenExchangeError msg None))),
           [Failed 0 (Err (Last9 (TokenExchangeError msg None)))],
           quiet_world\<lparr>refreshed := refreshed quiet_world @ [''refresh''],
             cache := (cache quiet_world)(getCacheKey toy_digest ''refresh'' := None)\<rparr>)"
    by blast
  have "Err (Last9 (TokenExchangeError msg None))
        = Err (Last9 (TokenExchangeError ''Failed to exchange refresh token: offline'' None))"
    using c call by simp
  then show ?thesis
    using r c call by (simp add: NetworkError_def mkError_def)
qed

subsection \<open>HTTP errors\<close>

lemma parseInt_examples:
  "parseInt ''5'' = Some 5" "parseInt ''-5'' = Some (- 5)" "parseInt '' 42px'' = Some 42"
  "parseInt ''soon'' = None" "parseInt ''Wed, 21 Oct 2015 07:28:00 GMT'' = None" "parseInt '''' = None"
  "parseInt ''3'' = Some 3" "parseInt ''1000'' = Some 1000" "parseInt ''30000'' = Some 30000"
  by (simp_all add: parseInt_def isSpace_def isDigit_def digitValue_def digitsValue_def)

text \<open>
  C6 as stated fails at 408. The status 408 lies between 400 and 499 and is not 429, and \<open>createHttpError\<close> makes a
  \<open>TimeoutError\<close> of it, which is retryable: the branch for 408 and 504 comes before the
  one for client errors.
\<close>

theorem createHttpError_408_counterexample:
  "(400::int) \<le> 408 \<and> (408::int) \<le> 499 \<and> (408::int) \<noteq> 429
   \<and> code (createHttpError one_date 0 408 ''Request timeout'' None) = TIMEOUT_ERROR
   \<and> retryable (createHttpError one_date 0 408 ''Request timeout'' None)
   \<and> \<not> (code (createHttpError one_date 0 408 ''Request timeout'' None) = API_ERROR
          \<and> \<not> retryable (createHttpError one_date 0 408 ''Request timeout'' None))"
  by (simp add: createHttpError_def TOO_MANY_REQUESTS_def TIMEOUT_def TimeoutError_def mkError_def)

text \<open>
  C6, amended. For every status from 400 to 499 other than 429 and 408, \<open>createHttpError\<close>
  gives an \<open>ApiError\<close> with that status, which is not retryable; for 408 it gives a
  \<open>TimeoutError\<close>, which is retryable.
\<close>

theorem createHttpError_client_errors:
  "(400 \<le> status \<and> status \<le> 499 \<and> status \<noteq> 429 \<and> status \<noteq> 408 \<longrightarrow>
      createHttpError dateParse now status msg context = ApiError msg status
      \<and> code (createHttpError dateParse now status msg context) = API_ERROR
      \<and> \<not> retryable (createHttpError dateParse now status msg context)
      \<and> statusCode (createHttpError dateParse now status msg context) = Some status)
   \<and> createHttpError dateParse now 408 msg context = TimeoutError msg
   \<and> code (createHttpError dateParse now 408 msg context) = TIMEOUT_ERROR
   \<and> retryable (createHttpError dateParse now 408 msg context)"
  by (simp add: createHttpError_def TOO_MANY_REQUESTS_def TIMEOUT_def GATEWAY_TIMEOUT_def
      isServerError_def isClientError_def ApiError_def TimeoutError_def mkError_def)

theorem createHttpError_client_errors_witness:
  "createHttpError one_date 0 404 ''Not Found'' None = ApiError ''Not Found'' 404
   \<and> code (createHttpError one_date 0 404 ''Not Found'' None) = API_ERROR
   \<and> \<not> retryable (createHttpError one_date 0 404 ''Not Found'' None)"
proof -
  have range: "(400::int) \<le> 404 \<and> (404::int) \<le> 499 \<and> (404::int) \<noteq> 429 \<and> (404::int) \<noteq> 408"
    by simp
  from createHttpError_client_errors [of 404 one_date 0 "''Not Found''" None] range
  show ?thesis by blast
qed

text \<open>
  C7. The header \<open>-5\<close> is read as seconds and gives the hint -5000 ms on the error of a 429
  response: the branch for seconds returns \<open>seconds * 1000\<close> with no lower bound, while the
  branch for dates returns \<open>max 0\<close> of the difference. The other lines are the cases that
  agree with the claim: \<open>5\<close> gives 5000, a date in the past gives 0, a date 10 s ahead
  gives 10000, and a text that is neither, or no header, gives no hint.
\<close>

theorem parseRetryAfter_seconds_unclamped:
  "parseRetryAfter one_date 1445412490000 (Some ''-5'') = Some (- 5000)
   \<and> retryAfterMs (createHttpError one_date 1445412490000 429 ''Too Many Requests''
         (Some [''retry-after'' \<mapsto> ''-5''])) = Some (- 5000)
   \<and> parseRetryAfter one_date 1445412490000 (Some ''5'') = Some 5000
   \<and> parseRetryAfter one_date 1445412490000 (Some ''Wed, 21 Oct 2015 07:28:00 GMT'') = Some 0
   \<and> parseRetryAfter one_date 1445412470000 (Some ''Wed, 21 Oct 2015 07:28:00 GMT'') = Some 10000
   \<and> parseRetryAfter one_date 1445412490000 (Some ''soon'') = None
   \<and> parseRetryAfter one_date 1445412490000 None = None"
  by (simp add: parseRetryAfter_def createHttpError_def TOO_MANY_REQUESTS_def RateLimitError_def
      mkError_def one_date_def parseInt_examples)

subsection \<open>Configuration and the run\<close>

lemmas config_evaluation =
  loadConfig_def getInput_def optionalInput_def orDefault_def
  parseEventState_def parseBoolean_def parseCustomAttributes_def trim_def toLowerCase_def
  toLowerChar_def isSpace_def parseInt_examples Let_def

lemma parseInt_one: "parseInt ''1'' = Some 1"
  by (simp add: parseInt_def isSpace_def isDigit_def digitValue_def digitsValue_def)

lemma loadConfig_both:
  "loadConfig (jsonParse plain_host) both_context = Inr (default_config\<lparr>eventState := ''both''\<rparr>)"
  by (simp add: config_evaluation both_context_def default_config_def)

lemma loadConfig_single_try:
  "loadConfig (jsonParse plain_host) single_try_context
     = Inr (default_config\<lparr>eventState := ''both'', maxRetryAttempts := Some 1\<rparr>)"
  by (simp add: config_evaluation parseInt_one single_try_context_def default_config_def)

lemma loadConfig_no_env:
  "loadConfig (jsonParse plain_host) no_env_context = Inr default_config"
  by (simp add: config_evaluation no_env_context_def default_config_def)

lemma getInput_other:
  "name \<noteq> ''env'' \<Longrightarrow>
   getInput (context\<lparr>inputs := (inputs context)(''env'' := v)\<rparr>) name required
     = getInput context name required"
  by (simp add: getInput_def)

lemma optionalInput_other:
  "name \<noteq> ''env'' \<Longrightarrow>
   optionalInput (context\<lparr>inputs := (inputs context)(''env'' := v)\<rparr>) name
     = optionalInput context name"
  by (simp add: optionalInput_def getInput_other)

lemma loadConfig_ignores_env:
  "loadConfig parse (context\<lparr>inputs := (inputs context)(''env'' := v)\<rparr>) = loadConfig parse context"
  by (simp add: loadConfig_def getInput_other optionalInput_other Let_def cong: sum.case_cong)

lemma withRetry_first_success:
  "1 \<le> maxAttempts config \<Longrightarrow> operation w = (Inr v, w1) \<Longrightarrow>
   withRetry operation config w = (Inr v, [Succeeded 0], w1)"
  using loop_success [where operation = operation and w = w and a = 0]
  by (simp add: withRetry_def)

lemma withRetry_first_failure:
  assumes "1 \<le> maxAttempts config" and "operation w = (Inl e, w1)"
    and "maxAttempts config = 1 \<or> (\<not> isRetryableError e \<and> e \<noteq> Undefined)"
  shows "withRetry operation config w = (Inl e, [Failed 0 e], w1)"
proof (cases "maxAttempts config = 1")
  case True
  then show ?thesis
    using loop_last [where operation = operation and w = w and a = 0] assms(2)
    by (simp add: withRetry_def)
next
  case False
  then have "int 0 < maxAttempts config - 1" and "\<not> isRetryableError e" and "e \<noteq> Undefined"
    using assms(1,3) by simp_all
  then show ?thesis
    using loop_fatal [where operation = operation and w = w and a = 0, OF _ assms(2)]
    by (simp add: withRetry_def rethrown_def)
qed

lemma hour_valid: "newDate (multiply (expires_at hour_token) (Finite 1000)) = Some 3600000"
  by (simp add: hour_token_def newDate_def fromReal_def overflowAt_def)

lemma token_acquired:
  assumes "1 \<le> maxAttempts config"
    and "cache w (getCacheKey sha256hex rt) = None"
    and "refreshes w (length (refreshed w)) = Resolves r"
    and "newDate (multiply (expires_at r) (Finite 1000)) = Some expiry"
  shows "withRetry (getAccessToken sha256hex tm rt) config w =
     (Inr (access_token r), [Succeeded 0],
      w\<lparr>refreshed := refreshed w @ [rt],
        cache := (cache w)(getCacheKey sha256hex rt \<mapsto>
            \<lparr>accessToken = access_token r, refreshToken = refresh_token r,
             expiresAt = expiry, cachedAt = clock w\<rparr>)\<rparr>)"
  using withRetry_first_success [where operation = "getAccessToken sha256hex tm rt", OF assms(1)]
    getAccessToken_miss [OF assms(2), of tm] exchange_resolves [OF assms(3,4)]
  by simp

lemma sendPhase_accepted:
  assumes "1 \<le> maxAttempts (retryConfig config)"
    and "sendings w (length (sent w)) = Resolves r"
  shows "sendPhase h config attrs tok state w =
     (Inr (orElse (response_timestamp r) (Some (isoTime h (clock w)))),
      w\<lparr>sent := sent w @ [(orgSlug config,
             createDeploymentEvent (isoTime h) (clock w) state attrs
               (eventName config) (dataSourceName config), tok)]\<rparr>)"
proof -
  let ?event = "createDeploymentEvent (isoTime h) (clock w) state attrs
                    (eventName config) (dataSourceName config)"
  let ?op = "\<lambda>w. await (sendChangeEvent (orgSlug config) ?event tok w)"
  have "?op w = (Inr r, w\<lparr>sent := sent w @ [(orgSlug config, ?event, tok)]\<rparr>)"
    using assms(2) by (simp add: await_def sendChangeEvent_def)
  from withRetry_first_success [where operation = ?op, OF assms(1) this]
  show ?thesis by (simp add: sendPhase_def Let_def createDeploymentEvent_def)
qed

lemma sendPhase_rejected:
  assumes "1 \<le> maxAttempts (retryConfig config)"
    and "sendings w (length (sent w)) = Rejects e"
    and "maxAttempts (retryConfig config) = 1 \<or> (\<not> isRetryableError e \<and> e \<noteq> Undefined)"
  shows "sendPhase h config attrs tok state w =
     (Inl e,
      w\<lparr>sent := sent w @ [(orgSlug config,
             createDeploymentEvent (isoTime h) (clock w) state attrs
               (eventName config) (dataSourceName config), tok)]\<rparr>)"
proof -
  let ?event = "createDeploymentEvent (isoTime h) (clock w) state attrs
                    (eventName config) (dataSourceName config)"
  let ?op = "\<lambda>w. await (sendChangeEvent (orgSlug config) ?event tok w)"
  have "?op w = (Inl e, w\<lparr>sent := sent w @ [(orgSlug config, ?event, tok)]\<rparr>)"
    using assms(2) by (simp add: await_def sendChangeEvent_def)
  from withRetry_first_failure [where operation = ?op, OF assms(1) this assms(3)]
  show ?thesis by (simp add: sendPhase_def Let_def)
qed

lemma loop_frame:
  assumes op: "\<And>w. outputs (snd (operation w)) = outputs w \<and> failure (snd (operation w)) = failure w"
  shows "outputs (snd (snd (withRetry_loop operation config a le w))) = outputs w
       \<and> failure (snd (snd (withRetry_loop operation config a le w))) = failure w"
proof (induction "nat (maxAttempts config - int a)" arbitrary: a le w)
  case 0
  then have "\<not> int a < maxAttempts config" by simp
  then show ?case by (simp add: loop_done)
next
  case (Suc k)
  then have lt: "int a < maxAttempts config" by simp
  obtain r w1 where o: "operation w = (r, w1)" by (cases "operation w") auto
  have f1: "outputs w1 = outputs w \<and> failure w1 = failure w" using op [of w] o by simp
  show ?case
  proof (cases r)
    case (Inr v)
    then show ?thesis using loop_success [where operation = operation and w = w, OF lt] o f1 by simp
  next
    case (Inl e)
    show ?thesis
    proof (cases "int a = maxAttempts config - 1")
      case True
      then show ?thesis using loop_last [where operation = operation and w = w, OF True] o Inl f1 by simp
    next
      case False
      then have lt1: "int a < maxAttempts config - 1" using lt by simp
      show ?thesis
      proof (cases "isRetryableError e")
        case False
        then show ?thesis
          using loop_fatal [where operation = operation and w = w, OF lt1] o Inl f1 by simp
      next
        case True
        let ?d = "calculateBackoff (random w1 (drawn w1)) a (backoffMs config) (maxBackoffMs config)"
        let ?w3 = "sleep ?d (w1\<lparr>drawn := Suc (drawn w1)\<rparr>)"
        have k: "k = nat (maxAttempts config - int (Suc a))" using Suc.hyps(2) by simp
        have f3: "outputs ?w3 = outputs w \<and> failure ?w3 = failure w"
          using f1 by (simp add: sleep_def)
        have "withRetry_loop operation config a le w =
                prepend [Failed a e, Slept a ?d] (withRetry_loop operation config (Suc a) e ?w3)"
          using loop_retry [where operation = operation and w = w and le = le, OF lt1 _ True] o Inl
          by simp
        then show ?thesis
          using Suc.hyps(1) [OF k, of e ?w3] f3
          by (simp add: prepend_def split: prod.splits)
      qed
    qed
  qed
qed

lemma withRetry_frame:
  assumes "\<And>w. outputs (snd (operation w)) = outputs w \<and> failure (snd (operation w)) = failure w"
    and "withRetry operation config w = (res, tr, w')"
  shows "outputs w' = outputs w \<and> failure w' = failure w"
  using loop_frame [where operation = operation, OF assms(1), of config 0 Undefined w] assms(2)
  by (simp add: withRetry_def)

lemma getAccessToken_frame:
  "outputs (snd (getAccessToken sha256hex tm rt w)) = outputs w
   \<and> failure (snd (getAccessToken sha256hex tm rt w)) = failure w"
  by (auto simp: getAccessToken_def exchangeAndCache_def refreshAccessToken_def Let_def
      split: option.splits outcome.splits thrown.splits)

lemma send_frame:
  "outputs (snd (await (sendChangeEvent slug event tok w))) = outputs w
   \<and> failure (snd (await (sendChangeEvent slug event tok w))) = failure w"
  by (auto simp: await_def sendChangeEvent_def split: outcome.splits)

lemma sendPhase_frame:
  assumes "sendPhase h config attrs tok state w = (res, w')"
  shows "outputs w' = outputs w \<and> failure w' = failure w"
proof -
  let ?event = "createDeploymentEvent (isoTime h) (clock w) state attrs
                    (eventName config) (dataSourceName config)"
  let ?op = "\<lambda>w. await (sendChangeEvent (orgSlug config) ?event tok w)"
  obtain r tr w1 where wr: "withRetry ?op (retryConfig config) w = (r, tr, w1)"
    using prod_cases3 by blast
  have fr: "outputs w1 = outputs w \<and> failure w1 = failure w"
    using withRetry_frame [where operation = ?op, OF _ wr] send_frame by simp
  have "w' = w1"
    using assms wr by (cases r) (simp_all add: sendPhase_def Let_def)
  then show ?thesis using fr by simp
qed

lemma run_try_throws:
  assumes "run_try h context w = (Inl error, w')"
  shows "outputs w' = outputs w \<and> failure w' = failure w"
proof (cases "loadConfig (jsonParse h) context")
  case (Inl e)
  then show ?thesis using assms by (simp add: run_try_def)
next
  case (Inr config)
  let ?attrs = "collectAttributes context (includeGitHubAttributes config)
                    (customAttributes config) None None"
  let ?get = "getAccessToken (digest h) (newTokenManager (Some 300)) (refreshToken_cfg config)"
  obtain r0 tr0 w1 where t: "withRetry ?get (retryConfig config) w = (r0, tr0, w1)"
    using prod_cases3 by blast
  have f1: "outputs w1 = outputs w \<and> failure w1 = failure w"
    using withRetry_frame [where operation = ?get, OF _ t] getAccessToken_frame by simp
  show ?thesis
  proof (cases r0)
    case (Inl e)
    then show ?thesis using assms Inr t f1 by (simp add: run_try_def Let_def)
  next
    case tok: (Inr accessTok)
    let ?first = "if eventState config = ''start'' \<or> eventState config = ''both''
            then sendPhase h config ?attrs accessTok Start w1 else (Inr None, w1)"
    obtain r1 w2 where s1: "?first = (r1, w2)" by (cases ?first) auto
    have f2: "outputs w2 = outputs w \<and> failure w2 = failure w"
      using s1 f1 sendPhase_frame [of h config ?attrs accessTok Start w1 r1 w2]
      by (auto split: if_splits)
    show ?thesis
    proof (cases r1)
      case (Inl e)
      then show ?thesis using assms Inr t tok s1 f2 by (simp add: run_try_def Let_def)
    next
      case st: (Inr startTimestamp)
      let ?second = "if eventState config = ''stop'' \<or> eventState config = ''both''
            then sendPhase h config ?attrs accessTok Stop w2 else (Inr None, w2)"
      obtain r2 w3 where s2: "?second = (r2, w3)" by (cases ?second) auto
      have f3: "outputs w3 = outputs w \<and> failure w3 = failure w"
        using s2 f2 sendPhase_frame [of h config ?attrs accessTok Stop w2 r2 w3]
        by (auto split: if_splits)
      show ?thesis
      proof (cases r2)
        case (Inl e)
        then show ?thesis using assms Inr t tok s1 st s2 f3 by (simp add: run_try_def Let_def)
      next
        case sp: (Inr stopTimestamp)
        then show ?thesis using assms Inr t tok s1 st s2 by (simp add: run_try_def Let_def)
      qed
    qed
  qed
qed


lemma run_try_returns:
  assumes "run_try h context w = (Inr u, w')"
  shows "(\<exists>ts. outputs w' = outputs w @ (''success'', ''true'') # ts
              \<and> set (map fst ts) \<subseteq> {''start_timestamp'', ''stop_timestamp''})
         \<and> failure w' = failure w"
proof (cases "loadConfig (jsonParse h) context")
  case (Inl e)
  then show ?thesis using assms by (simp add: run_try_def)
next
  case (Inr config)
  let ?attrs = "collectAttributes context (includeGitHubAttributes config)
                    (customAttributes config) None None"
  let ?get = "getAccessToken (digest h) (newTokenManager (Some 300)) (refreshToken_cfg config)"
  obtain r0 tr0 w1 where t: "withRetry ?get (retryConfig config) w = (r0, tr0, w1)"
    using prod_cases3 by blast
  have f1: "outputs w1 = outputs w \<and> failure w1 = failure w"
    using withRetry_frame [where operation = ?get, OF _ t] getAccessToken_frame by simp
  show ?thesis
  proof (cases r0)
    case (Inl e)
    then show ?thesis using assms Inr t by (simp add: run_try_def Let_def)
  next
    case tok: (Inr accessTok)
    let ?first = "if eventState config = ''start'' \<or> eventState config = ''both''
            then sendPhase h config ?attrs accessTok Start w1 else (Inr None, w1)"
    obtain r1 w2 where s1: "?first = (r1, w2)" by (cases ?first) auto
    have f2: "outputs w2 = outputs w \<and> failure w2 = failure w"
      using s1 f1 sendPhase_frame [of h config ?attrs accessTok Start w1 r1 w2]
      by (auto split: if_splits)
    show ?thesis
    proof (cases r1)
      case (Inl e)
      then show ?thesis using assms Inr t tok s1 by (simp add: run_try_def Let_def)
    next
      case st: (Inr startTimestamp)
      let ?second = "if eventState config = ''stop'' \<or> eventState config = ''both''
            then sendPhase h config ?attrs accessTok Stop w2 else (Inr None, w2)"
      obtain r2 w3 where s2: "?second = (r2, w3)" by (cases ?second) auto
      have f3: "outputs w3 = outputs w \<and> failure w3 = failure w"
        using s2 f2 sendPhase_frame [of h config ?attrs accessTok Stop w2 r2 w3]
        by (auto split: if_splits)
      show ?thesis
      proof (cases r2)
        case (Inl e)
        then show ?thesis using assms Inr t tok s1 st s2 by (simp add: run_try_def Let_def)
      next
        case sp: (Inr stopTimestamp)
        have "w' = (let w4 = setOutput ''success'' ''true'' w3;
               w5 = (case startTimestamp of
                       Some t \<Rightarrow> if t \<noteq> [] then setOutput ''start_timestamp'' t w4 else w4
                     | None \<Rightarrow> w4)
               in (case stopTimestamp of
                       Some t \<Rightarrow> if t \<noteq> [] then setOutput ''stop_timestamp'' t w5 else w5
                     | None \<Rightarrow> w5))"
          using assms Inr t tok s1 st s2 sp by (simp add: run_try_def Let_def)
        then show ?thesis
          using f3 by (auto simp: setOutput_def Let_def split: option.splits)
      qed
    qed
  qed
qed

lemma run_try_stop_fails:
  assumes "loadConfig (jsonParse h) context = Inr config"
    and "eventState config = ''both''"
    and "withRetry (getAccessToken (digest h) (newTokenManager (Some 300)) (refreshToken_cfg config))
               (retryConfig config) w = (Inr accessTok, tr, w1)"
    and "sendPhase h config
               (collectAttributes context (includeGitHubAttributes config) (customAttributes config)
                  None None) accessTok Start w1 = (Inr startTimestamp, w2)"
    and "sendPhase h config
               (collectAttributes context (includeGitHubAttributes config) (customAttributes config)
                  None None) accessTok Stop w2 = (Inl error, w3)"
  shows "run_try h context w = (Inl error, w3)"
  using assms by (simp add: run_try_def Let_def)



lemma scenario_stop_fails:
  assumes cfg: "loadConfig (jsonParse h) context = Inr config"
    and both: "eventState config = ''both''"
    and tries: "1 \<le> maxAttempts (retryConfig config)"
    and fresh: "cache w (getCacheKey (digest h) (refreshToken_cfg config)) = None"
    and grant: "refreshes w (length (refreshed w)) = Resolves r"
    and valid: "newDate (multiply (expires_at r) (Finite 1000)) = Some expiry"
    and nothing_sent: "sent w = []"
    and first: "sendings w 0 = Resolves a"
    and second: "sendings w 1 = Rejects e"
    and final: "maxAttempts (retryConfig config) = 1 \<or> (\<not> isRetryableError e \<and> e \<noteq> Undefined)"
  shows "\<exists>w3. run_try h context w = (Inl e, w3)
            \<and> map (\<lambda>(slug, event, tok). event_state event) (sent w3) = [Start, Stop]
            \<and> refreshed w3 = refreshed w @ [refreshToken_cfg config]"
proof -
  let ?attrs = "collectAttributes context (includeGitHubAttributes config) (customAttributes config)
                  None None"
  let ?w1 = "w\<lparr>refreshed := refreshed w @ [refreshToken_cfg config],
        cache := (cache w)(getCacheKey (digest h) (refreshToken_cfg config) \<mapsto>
            \<lparr>accessToken = access_token r, refreshToken = refresh_token r,
             expiresAt = expiry, cachedAt = clock w\<rparr>)\<rparr>"
  have t: "withRetry (getAccessToken (digest h) (newTokenManager (Some 300))
              (refreshToken_cfg config)) (retryConfig config) w
           = (Inr (access_token r), [Succeeded 0], ?w1)"
    using tries fresh grant valid by (rule token_acquired)
  let ?e1 = "createDeploymentEvent (isoTime h) (clock ?w1) Start ?attrs
               (eventName config) (dataSourceName config)"
  let ?w2 = "?w1\<lparr>sent := sent ?w1 @ [(orgSlug config, ?e1, access_token r)]\<rparr>"
  have "sendings ?w1 (length (sent ?w1)) = Resolves a"
    using first nothing_sent by simp
  from sendPhase_accepted [OF tries this]
  have s1: "sendPhase h config ?attrs (access_token r) Start ?w1
              = (Inr (orElse (response_timestamp a) (Some (isoTime h (clock ?w1)))), ?w2)" .
  let ?e2 = "createDeploymentEvent (isoTime h) (clock ?w2) Stop ?attrs
               (eventName config) (dataSourceName config)"
  let ?w3 = "?w2\<lparr>sent := sent ?w2 @ [(orgSlug config, ?e2, access_token r)]\<rparr>"
  have "sendings ?w2 (length (sent ?w2)) = Rejects e"
    using second nothing_sent by simp
  from sendPhase_rejected [OF tries this final]
  have s2: "sendPhase h config ?attrs (access_token r) Stop ?w2 = (Inl e, ?w3)" .
  have a1: "run_try h context w = (Inl e, ?w3)"
    using cfg both t s1 s2 by (rule run_try_stop_fails)
  have a2: "map (\<lambda>(slug, event, tok). event_state event) (sent ?w3) = [Start, Stop]"
    using nothing_sent by (simp add: createDeploymentEvent_def)
  have a3: "refreshed ?w3 = refreshed w @ [refreshToken_cfg config]" by simp
  show ?thesis
    by (rule exI [of _ ?w3]) (intro conjI a1 a2 a3)
qed

lemma scenario_all_sent:
  assumes cfg: "loadConfig (jsonParse h) context = Inr config"
    and both: "eventState config = ''both''"
    and tries: "1 \<le> maxAttempts (retryConfig config)"
    and fresh: "cache w (getCacheKey (digest h) (refreshToken_cfg config)) = None"
    and grant: "refreshes w (length (refreshed w)) = Resolves r"
    and valid: "newDate (multiply (expires_at r) (Finite 1000)) = Some expiry"
    and nothing_sent: "sent w = []"
    and first: "sendings w 0 = Resolves a"
    and second: "sendings w 1 = Resolves b"
  shows "fst (run_try h context w) = Inr ()"
proof -
  let ?attrs = "collectAttributes context (includeGitHubAttributes config) (customAttributes config)
                  None None"
  let ?w1 = "w\<lparr>refreshed := refreshed w @ [refreshToken_cfg config],
        cache := (cache w)(getCacheKey (digest h) (refreshToken_cfg config) \<mapsto>
            \<lparr>accessToken = access_token r, refreshToken = refresh_token r,
             expiresAt = expiry, cachedAt = clock w\<rparr>)\<rparr>"
  have t: "withRetry (getAccessToken (digest h) (newTokenManager (Some 300))
              (refreshToken_cfg config)) (retryConfig config) w
           = (Inr (access_token r), [Succeeded 0], ?w1)"
    using tries fresh grant valid by (rule token_acquired)
  let ?e1 = "createDeploymentEvent (isoTime h) (clock ?w1) Start ?attrs
               (eventName config) (dataSourceName config)"
  let ?w2 = "?w1\<lparr>sent := sent ?w1 @ [(orgSlug config, ?e1, access_token r)]\<rparr>"
  have "sendings ?w1 (length (sent ?w1)) = Resolves a"
    using first nothing_sent by simp
  from sendPhase_accepted [OF tries this]
  have s1: "sendPhase h config ?attrs (access_token r) Start ?w1
              = (Inr (orElse (response_timestamp a) (Some (isoTime h (clock ?w1)))), ?w2)" .
  let ?e2 = "createDeploymentEvent (isoTime h) (clock ?w2) Stop ?attrs
               (eventName config) (dataSourceName config)"
  let ?w3 = "?w2\<lparr>sent := sent ?w2 @ [(orgSlug config, ?e2, access_token r)]\<rparr>"
  have "sendings ?w2 (length (sent ?w2)) = Resolves b"
    using second nothing_sent by simp
  from sendPhase_accepted [OF tries this]
  have s2: "sendPhase h config ?attrs (access_token r) Stop ?w2
              = (Inr (orElse (response_timestamp b) (Some (isoTime h (clock ?w2)))), ?w3)" .
  show ?thesis
    unfolding run_try_def cfg
    using both t s1 s2 by (simp add: Let_def)
qed

lemma scenario_token_invalid:
  assumes cfg: "loadConfig (jsonParse h) context = Inr config"
    and tries: "1 \<le> maxAttempts (retryConfig config)"
    and fresh: "cache w (getCacheKey (digest h) (refreshToken_cfg config)) = None"
    and grant: "refreshes w (length (refreshed w)) = Resolves r"
    and invalid: "newDate (multiply (expires_at r) (Finite 1000)) = None"
  shows "run_try h context w =
     (Inl (Err (Last9 (TokenExchangeError
        ''Failed to exchange refresh token: Invalid time value'' None))),
      w\<lparr>refreshed := refreshed w @ [refreshToken_cfg config],
        cache := (cache w)(getCacheKey (digest h) (refreshToken_cfg config) := None)\<rparr>)"
proof -
  let ?e = "Err (Last9 (TokenExchangeError
              ''Failed to exchange refresh token: Invalid time value'' None))"
  let ?get = "getAccessToken (digest h) (newTokenManager (Some 300)) (refreshToken_cfg config)"
  let ?w1 = "w\<lparr>refreshed := refreshed w @ [refreshToken_cfg config],
        cache := (cache w)(getCacheKey (digest h) (refreshToken_cfg config) := None)\<rparr>"
  have call: "?get w = (Inl ?e, ?w1)"
    using getAccessToken_miss [OF fresh, of "newTokenManager (Some 300)"]
      exchange_invalid [OF grant invalid] by simp
  have fatal: "maxAttempts (retryConfig config) = 1 \<or> (\<not> isRetryableError ?e \<and> ?e \<noteq> Undefined)"
    by (simp add: TokenExchangeError_def mkError_def)
  have "withRetry ?get (retryConfig config) w = (Inl ?e, [Failed 0 ?e], ?w1)"
    using tries call fatal by (rule withRetry_first_failure)
  then show ?thesis
    unfolding run_try_def cfg by (simp add: Let_def)
qed

text \<open>
  C1, amended. A run whose \<open>try\<close> block throws, at whatever point, sets one output,
  \<open>success = false\<close>, and the failure message; it sets no timestamp. In particular
  (second conjunct), with both phases configured, the token granted with an expiry that
  is a valid date, the start event accepted and the stop event rejected for good, the run
  has sent both events and its only
  output is \<open>success = false\<close>: the start timestamp it obtained is not reported. When the
  token is granted with an expiry that is no valid date (third conjunct), the run fails
  before it sends anything, with the same single output. A run whose \<open>try\<close> block returns
  sets \<open>success = true\<close> first and after it only \<open>start_timestamp\<close> and
  \<open>stop_timestamp\<close>.
\<close>

theorem run_failure_outputs:
  "(\<forall>error w'. run_try h context w = (Inl error, w') \<longrightarrow>
       run h context w = setOutput ''success'' ''false'' (w'\<lparr>failure := Some (failureText error)\<rparr>)
       \<and> outputs (run h context w) = outputs w @ [(''success'', ''false'')]
       \<and> failure (run h context w) = Some (failureText error))
   \<and> (\<forall>config r expiry a e.
         loadConfig (jsonParse h) context = Inr config
         \<and> eventState config = ''both''
         \<and> 1 \<le> maxAttempts (retryConfig config)
         \<and> cache w (getCacheKey (digest h) (refreshToken_cfg config)) = None
         \<and> refreshes w (length (refreshed w)) = Resolves r
         \<and> newDate (multiply (expires_at r) (Finite 1000)) = Some expiry
         \<and> sent w = []
         \<and> sendings w 0 = Resolves a
         \<and> sendings w 1 = Rejects e
         \<and> (maxAttempts (retryConfig config) = 1 \<or> (\<not> isRetryableError e \<and> e \<noteq> Undefined))
         \<longrightarrow> map (\<lambda>(slug, event, tok). event_state event) (sent (run h context w)) = [Start, Stop]
             \<and> outputs (run h context w) = outputs w @ [(''success'', ''false'')]
             \<and> failure (run h context w) = Some (failureText e))
   \<and> (\<forall>config r.
         loadConfig (jsonParse h) context = Inr config
         \<and> 1 \<le> maxAttempts (retryConfig config)
         \<and> cache w (getCacheKey (digest h) (refreshToken_cfg config)) = None
         \<and> refreshes w (length (refreshed w)) = Resolves r
         \<and> newDate (multiply (expires_at r) (Finite 1000)) = None
         \<longrightarrow> sent (run h context w) = sent w
             \<and> outputs (run h context w) = outputs w @ [(''success'', ''false'')]
             \<and> failure (run h context w)
                 = Some (failureText (Err (Last9 (TokenExchangeError
                      ''Failed to exchange refresh token: Invalid time value'' None)))))
   \<and> (\<forall>u w'. run_try h context w = (Inr u, w') \<longrightarrow>
         run h context w = w'
         \<and> failure (run h context w) = failure w
         \<and> (\<exists>ts. outputs (run h context w) = outputs w @ (''success'', ''true'') # ts
                \<and> set (map fst ts) \<subseteq> {''start_timestamp'', ''stop_timestamp''}))"
proof -
  have thrown: "run h context w = setOutput ''success'' ''false'' (w'\<lparr>failure := Some (failureText error)\<rparr>)
       \<and> outputs (run h context w) = outputs w @ [(''success'', ''false'')]
       \<and> failure (run h context w) = Some (failureText error)"
    if "run_try h context w = (Inl error, w')" for error w'
    using that run_try_throws [OF that] by (simp add: run_def setOutput_def)
  have partial: "map (\<lambda>(slug, event, tok). event_state event) (sent (run h context w)) = [Start, Stop]
             \<and> outputs (run h context w) = outputs w @ [(''success'', ''false'')]
             \<and> failure (run h context w) = Some (failureText e)"
    if "loadConfig (jsonParse h) context = Inr config
         \<and> eventState config = ''both''
         \<and> 1 \<le> maxAttempts (retryConfig config)
         \<and> cache w (getCacheKey (digest h) (refreshToken_cfg config)) = None
         \<and> refreshes w (length (refreshed w)) = Resolves r
         \<and> newDate (multiply (expires_at r) (Finite 1000)) = Some expiry
         \<and> sent w = []
         \<and> sendings w 0 = Resolves a
         \<and> sendings w 1 = Rejects e
         \<and> (maxAttempts (retryConfig config) = 1 \<or> (\<not> isRetryableError e \<and> e \<noteq> Undefined))"
    for config r expiry a e
  proof -
    from that scenario_stop_fails [of h "context" config w r expiry a e]
    obtain w3 where tried: "run_try h context w = (Inl e, w3)"
      and events: "map (\<lambda>(slug, event, tok). event_state event) (sent w3) = [Start, Stop]"
      by auto
    have same: "sent (run h context w) = sent w3"
      using tried by (simp add: run_def setOutput_def)
    from thrown [OF tried] have "outputs (run h context w) = outputs w @ [(''success'', ''false'')]"
      and "failure (run h context w) = Some (failureText e)" by blast+
    then show ?thesis unfolding same using events by blast
  qed
  have refused: "sent (run h context w) = sent w
             \<and> outputs (run h context w) = outputs w @ [(''success'', ''false'')]
             \<and> failure (run h context w)
                 = Some (failureText (Err (Last9 (TokenExchangeError
                      ''Failed to exchange refresh token: Invalid time value'' None))))"
    if "loadConfig (jsonParse h) context = Inr config
         \<and> 1 \<le> maxAttempts (retryConfig config)
         \<and> cache w (getCacheKey (digest h) (refreshToken_cfg config)) = None
         \<and> refreshes w (length (refreshed w)) = Resolves r
         \<and> newDate (multiply (expires_at r) (Finite 1000)) = None"
    for config r
  proof -
    let ?e = "Err (Last9 (TokenExchangeError
                ''Failed to exchange refresh token: Invalid time value'' None))"
    let ?w1 = "w\<lparr>refreshed := refreshed w @ [refreshToken_cfg config],
        cache := (cache w)(getCacheKey (digest h) (refreshToken_cfg config) := None)\<rparr>"
    have tried: "run_try h context w = (Inl ?e, ?w1)"
      using that scenario_token_invalid [of h "context" config w r] by blast
    have same: "sent (run h context w) = sent w"
      using tried by (simp add: run_def setOutput_def)
    from thrown [OF tried] have "outputs (run h context w) = outputs w @ [(''success'', ''false'')]"
      and "failure (run h context w) = Some (failureText ?e)" by blast+
    then show ?thesis using same by blast
  qed
  have returned: "run h context w = w'
         \<and> failure (run h context w) = failure w
         \<and> (\<exists>ts. outputs (run h context w) = outputs w @ (''success'', ''true'') # ts
                \<and> set (map fst ts) \<subseteq> {''start_timestamp'', ''stop_timestamp''})"
    if "run_try h context w = (Inr u, w')" for u w'
    using that run_try_returns [OF that] by (simp add: run_def)
  show ?thesis
    using thrown partial refused returned by blast
qed

text \<open>
  C1 as stated fails here. A run with both phases: the start event is accepted, the stop event is refused with
  status 400. Both events were sent, the run failed, and \<open>success = false\<close> is its only
  output; there is no \<open>start_timestamp\<close>.
\<close>

theorem run_partial_output_counterexample:
  "sendings stop_refused_world 0 = Resolves start_accepted
   \<and> map (\<lambda>(slug, event, tok). event_state event)
        (sent (run plain_host both_context stop_refused_world)) = [Start, Stop]
   \<and> failure (run plain_host both_context stop_refused_world)
        = Some ''ApiError: Bad Request (API_ERROR)''
   \<and> outputs (run plain_host both_context stop_refused_world) = [(''success'', ''false'')]
   \<and> map_of (outputs (run plain_host both_context stop_refused_world)) ''start_timestamp'' = None"
proof -
  let ?e = "Err (Last9 (ApiError ''Bad Request'' 400))"
  have world: "cache stop_refused_world k = None" "sent stop_refused_world = []"
      "refreshes stop_refused_world n = Resolves hour_token"
      "sendings stop_refused_world 0 = Resolves start_accepted"
      "sendings stop_refused_world 1 = Rejects ?e"
      "outputs stop_refused_world = []" for k n
    by (simp_all add: stop_refused_world_def granting_world_def quiet_world_def)
  have policy: "1 \<le> maxAttempts (retryConfig (default_config\<lparr>eventState := ''both''\<rparr>))"
    by (simp add: retryConfig_def default_config_def)
  have fatal: "maxAttempts (retryConfig (default_config\<lparr>eventState := ''both''\<rparr>)) = 1
                 \<or> (\<not> isRetryableError ?e \<and> ?e \<noteq> Undefined)"
    by (simp add: ApiError_def mkError_def)
  from scenario_stop_fails [OF loadConfig_both _ policy world(1) world(3) hour_valid world(2) world(4,5) fatal]
  obtain w3 where tried: "run_try plain_host both_context stop_refused_world = (Inl ?e, w3)"
    and events: "map (\<lambda>(slug, event, tok). event_state event) (sent w3) = [Start, Stop]"
    by auto
  have out: "outputs w3 = outputs stop_refused_world"
    using run_try_throws [OF tried] by simp
  show ?thesis
    unfolding run_def tried
    using events out world(4,6)
    by (simp add: setOutput_def failureText_def ApiError_def mkError_def)
qed

theorem run_failure_outputs_witness:
  "map (\<lambda>(slug, event, tok). event_state event)
       (sent (run plain_host single_try_context stop_offline_world)) = [Start, Stop]
   \<and> outputs (run plain_host single_try_context stop_offline_world) = [(''success'', ''false'')]
   \<and> failure (run plain_host single_try_context stop_offline_world)
        = Some ''NetworkError: offline (NETWORK_ERROR)''
   \<and> fst (run_try plain_host both_context accepting_world) = Inr ()
   \<and> hd (outputs (run plain_host both_context accepting_world)) = (''success'', ''true'')
   \<and> sent (run plain_host both_context endless_world) = []
   \<and> outputs (run plain_host both_context endless_world) = [(''success'', ''false'')]
   \<and> failure (run plain_host both_context endless_world)
        = Some ''TokenExchangeError: Failed to exchange refresh token: Invalid time value (TOKEN_EXCHANGE_ERROR)''"
proof -
  let ?e = "Err (Last9 (NetworkError ''offline''))"
  let ?cfg = "default_config\<lparr>eventState := ''both'', maxRetryAttempts := Some 1\<rparr>"
  have hyps: "loadConfig (jsonParse plain_host) single_try_context = Inr ?cfg
         \<and> eventState ?cfg = ''both''
         \<and> 1 \<le> maxAttempts (retryConfig ?cfg)
         \<and> cache stop_offline_world (getCacheKey (digest plain_host) (refreshToken_cfg ?cfg)) = None
         \<and> refreshes stop_offline_world (length (refreshed stop_offline_world)) = Resolves hour_token
         \<and> newDate (multiply (expires_at hour_token) (Finite 1000)) = Some 3600000
         \<and> sent stop_offline_world = []
         \<and> sendings stop_offline_world 0 = Resolves start_accepted
         \<and> sendings stop_offline_world 1 = Rejects ?e
         \<and> (maxAttempts (retryConfig ?cfg) = 1 \<or> (\<not> isRetryableError ?e \<and> ?e \<noteq> Undefined))"
    using loadConfig_single_try hour_valid
    by (simp add: retryConfig_def default_config_def stop_offline_world_def granting_world_def
        quiet_world_def)
  from run_failure_outputs [of plain_host single_try_context stop_offline_world] hyps
  have failed: "map (\<lambda>(slug, event, tok). event_state event)
                  (sent (run plain_host single_try_context stop_offline_world)) = [Start, Stop]
     \<and> outputs (run plain_host single_try_context stop_offline_world)
          = outputs stop_offline_world @ [(''success'', ''false'')]
     \<and> failure (run plain_host single_try_context stop_offline_world) = Some (failureText ?e)"
    by blast
  have shown: "failureText ?e = ''NetworkError: offline (NETWORK_ERROR)''"
    by (simp add: failureText_def NetworkError_def mkError_def)
  have empty: "outputs stop_offline_world = []" "outputs accepting_world = []"
    by (simp_all add: stop_offline_world_def accepting_world_def granting_world_def quiet_world_def)
  obtain r w' where ok: "run_try plain_host both_context accepting_world = (r, w')"
    by (cases "run_try plain_host both_context accepting_world") auto
  have good: "r = Inr ()"
  proof -
    have calm: "cache accepting_world k = None" "sent accepting_world = []"
      "refreshes accepting_world n = Resolves hour_token"
      "sendings accepting_world n = Resolves start_accepted" for k n
      by (simp_all add: accepting_world_def granting_world_def quiet_world_def)
    have three: "1 \<le> maxAttempts (retryConfig (default_config\<lparr>eventState := ''both''\<rparr>))"
      by (simp add: retryConfig_def default_config_def)
    from scenario_all_sent [OF loadConfig_both _ three calm(1) calm(3) hour_valid calm(2) calm(4) calm(4)]
    show ?thesis using ok by simp
  qed
  from run_failure_outputs [of plain_host both_context accepting_world] ok good
  obtain ts where "outputs (run plain_host both_context accepting_world)
                     = outputs accepting_world @ (''success'', ''true'') # ts"
    by blast
  then have first: "hd (outputs (run plain_host both_context accepting_world)) = (''success'', ''true'')"
    using empty by simp
  let ?x = "Err (Last9 (TokenExchangeError
              ''Failed to exchange refresh token: Invalid time value'' None))"
  have endless: "loadConfig (jsonParse plain_host) both_context
           = Inr (default_config\<lparr>eventState := ''both''\<rparr>)
         \<and> 1 \<le> maxAttempts (retryConfig (default_config\<lparr>eventState := ''both''\<rparr>))
         \<and> cache endless_world (getCacheKey (digest plain_host)
              (refreshToken_cfg (default_config\<lparr>eventState := ''both''\<rparr>))) = None
         \<and> refreshes endless_world (length (refreshed endless_world)) = Resolves endless_token
         \<and> newDate (multiply (expires_at endless_token) (Finite 1000)) = None"
    using loadConfig_both
    by (simp add: retryConfig_def default_config_def endless_world_def quiet_world_def
        endless_token_def newDate_def fromReal_def overflowAt_def)
  from run_failure_outputs [of plain_host both_context endless_world] endless
  have token: "sent (run plain_host both_context endless_world) = sent endless_world
     \<and> outputs (run plain_host both_context endless_world)
          = outputs endless_world @ [(''success'', ''false'')]
     \<and> failure (run plain_host both_context endless_world) = Some (failureText ?x)"
    by blast
  have told: "failureText ?x
      = ''TokenExchangeError: Failed to exchange refresh token: Invalid time value (TOKEN_EXCHANGE_ERROR)''"
    by (simp add: failureText_def TokenExchangeError_def mkError_def)
  have blank: "sent endless_world = []" "outputs endless_world = []"
    by (simp_all add: endless_world_def quiet_world_def)
  show ?thesis
    using failed shown empty ok good first token told blank by simp
qed


lemma scenario_stop_only:
  assumes cfg: "loadConfig (jsonParse h) context = Inr config"
    and stop: "eventState config = ''stop''"
    and tries: "1 \<le> maxAttempts (retryConfig config)"
    and fresh: "cache w (getCacheKey (digest h) (refreshToken_cfg config)) = None"
    and grant: "refreshes w (length (refreshed w)) = Resolves r"
    and valid: "newDate (multiply (expires_at r) (Finite 1000)) = Some expiry"
    and nothing_sent: "sent w = []"
    and first: "sendings w 0 = Resolves a"
    and stamped: "response_timestamp a = Some t" "t \<noteq> []"
  shows "run h context w =
     w\<lparr>refreshed := refreshed w @ [refreshToken_cfg config],
       cache := (cache w)(getCacheKey (digest h) (refreshToken_cfg config) \<mapsto>
            \<lparr>accessToken = access_token r, refreshToken = refresh_token r,
             expiresAt = expiry, cachedAt = clock w\<rparr>),
       sent := [(orgSlug config,
                 createDeploymentEvent (isoTime h) (clock w) Stop
                   (collectAttributes context (includeGitHubAttributes config)
                      (customAttributes config) None None)
                   (eventName config) (dataSourceName config),
                 access_token r)],
       outputs := outputs w @ [(''success'', ''true''), (''stop_timestamp'', t)]\<rparr>"
proof -
  let ?attrs = "collectAttributes context (includeGitHubAttributes config) (customAttributes config)
                  None None"
  let ?w1 = "w\<lparr>refreshed := refreshed w @ [refreshToken_cfg config],
        cache := (cache w)(getCacheKey (digest h) (refreshToken_cfg config) \<mapsto>
            \<lparr>accessToken = access_token r, refreshToken = refresh_token r,
             expiresAt = expiry, cachedAt = clock w\<rparr>)\<rparr>"
  have t: "withRetry (getAccessToken (digest h) (newTokenManager (Some 300))
              (refreshToken_cfg config)) (retryConfig config) w
           = (Inr (access_token r), [Succeeded 0], ?w1)"
    using tries fresh grant valid by (rule token_acquired)
  let ?e1 = "createDeploymentEvent (isoTime h) (clock ?w1) Stop ?attrs
               (eventName config) (dataSourceName config)"
  let ?w2 = "?w1\<lparr>sent := sent ?w1 @ [(orgSlug config, ?e1, access_token r)]\<rparr>"
  have "sendings ?w1 (length (sent ?w1)) = Resolves a"
    using first nothing_sent by simp
  from sendPhase_accepted [OF tries this]
  have s1: "sendPhase h config ?attrs (access_token r) Stop ?w1
              = (Inr (orElse (response_timestamp a) (Some (isoTime h (clock ?w1)))), ?w2)" .
  have ts: "orElse (response_timestamp a) (Some (isoTime h (clock ?w1))) = Some t"
    using stamped by (simp add: orElse_def truthy_def)
  have tried: "run_try h context w =
      (Inr (), setOutput ''stop_timestamp'' t (setOutput ''success'' ''true'' ?w2))"
    unfolding run_try_def cfg
    by (simp add: stop t s1 [unfolded ts] Let_def \<open>t \<noteq> []\<close>)
  show ?thesis
    unfolding run_def tried
    using nothing_sent by (simp add: setOutput_def)
qed

text \<open>
  C2. With no \<open>env\<close> input, \<open>loadConfig\<close> returns a configuration; the run goes on to
  exchange the token and to send the stop event, whose \<open>env\<close> attribute is \<open>undefined\<close>,
  and ends with \<open>success = true\<close>. (\<open>loadConfig_ignores_env\<close>: the function never reads
  that input.)
\<close>

theorem loadConfig_without_env:
  "inputs no_env_context ''env'' = None
   \<and> loadConfig (jsonParse plain_host) no_env_context = Inr default_config
   \<and> refreshed (run plain_host no_env_context accepting_world) = [''refresh'']
   \<and> map (\<lambda>(slug, event, tok). (event_state event, attributes event ''env''))
        (sent (run plain_host no_env_context accepting_world)) = [(Stop, Some AUndefined)]
   \<and> outputs (run plain_host no_env_context accepting_world)
        = [(''success'', ''true''), (''stop_timestamp'', ''2026-01-01T00:00:01.000Z'')]
   \<and> failure (run plain_host no_env_context accepting_world) = None"
proof -
  have calm: "cache accepting_world k = None" "sent accepting_world = []"
      "refreshes accepting_world n = Resolves hour_token"
      "sendings accepting_world n = Resolves start_accepted"
      "outputs accepting_world = []" "failure accepting_world = None"
      "refreshed accepting_world = []" for k n
    by (simp_all add: accepting_world_def granting_world_def quiet_world_def)
  have policy: "1 \<le> maxAttempts (retryConfig default_config)"
    and stop: "eventState default_config = ''stop''"
    and token: "refreshToken_cfg default_config = ''refresh''"
    by (simp_all add: retryConfig_def default_config_def)
  have stamp: "response_timestamp start_accepted = Some ''2026-01-01T00:00:01.000Z''"
      "''2026-01-01T00:00:01.000Z'' \<noteq> []"
    by (simp_all add: start_accepted_def)
  have env: "collectAttributes no_env_context b [] None None ''env'' = Some AUndefined" for b
    by (cases b) (simp_all add: collectAttributes_def fromOptional_def no_env_context_def Let_def)
  note ran = scenario_stop_only [OF loadConfig_no_env stop policy calm(1) calm(3) hour_valid calm(2) calm(4) stamp]
  show ?thesis
    unfolding ran
    by (simp add: calm token loadConfig_no_env env createDeploymentEvent_def default_config_def)
       (simp add: no_env_context_def)
qed

end
